theory Spec2Isabelle
  imports Main "HOL-Library.Word"
begin

section \<open>The bootstrap loader \<open>pyqtdeploy_start.c\<close>\<close>

text \<open>
  A shallow embedding of \<open>src/pyqtdeploy/builder/lib/pyqtdeploy_start.c\<close>: the entry
  point \<open>pyqtdeploy_start\<close> and its helper \<open>append_strings\<close>.

  The C file is compiled in one of several variants, selected by the preprocessor
  (\<open>PY_MAJOR_VERSION >= 3\<close>, \<open>defined(ANDROID)\<close>) and by the ABI (whether plain
  \<open>char\<close> is signed). The variant is a parameter of the model, \<open>config\<close>. Everything
  the file calls but does not define (the Python runtime, the C library) is an
  environment, \<open>env\<close>, that fixes the result of each call that can fail; what the
  bootstrap does to the runtime is the sequence of API calls it makes, kept in the
  \<open>calls\<close> field of the state.
\<close>

subsection \<open>Data\<close>

text \<open>
  A \<open>char\<close> is 8 bits. A \<open>wchar_t\<close> is taken at 32 bits, its width on Android and on the
  other platforms of the C library's \<open>mbstowcs\<close> that the file is built for; whether it is
  signed does not change the bits stored.
\<close>

type_synonym byte = "8 word"
type_synonym wchar = "32 word"

text \<open>
  A \<open>char *\<close> string is the list of bytes at the pointer. Its terminator is the first
  zero byte; the end of the list counts as a terminator too, so the content of a string
  is the bytes before the first zero.
\<close>

type_synonym c_string = "byte list"

text \<open>
  A buffer of \<open>wchar_t\<close> units as \<open>PyMem_Malloc\<close> returns it: a unit that was never
  written is \<open>None\<close> (its value is indeterminate).
\<close>

type_synonym w_buffer = "wchar option list"

text \<open>\<open>PYMAIN_TYPE *\<close>: \<open>char *\<close> for Python 2, \<open>wchar_t *\<close> for Python 3.\<close>

datatype native = Narrow c_string | Wide w_buffer

text \<open>
  The build variant. The two frozen blobs come from the generated headers
  \<open>frozen_bootstrap.h\<close> and \<open>frozen_main.h\<close>, which are not part of the file.
\<close>

record config =
  py3 :: bool
  android :: bool
  char_signed :: bool
  frozen_pyqtdeploy_bootstrap :: "byte list"
  frozen_pyqtdeploy_main :: "byte list"

text \<open>\<open>struct _frozen\<close>; a \<open>NULL\<close> name or code pointer is \<open>None\<close>.\<close>

record frozen =
  f_name :: "string option"
  f_code :: "byte list option"
  f_size :: nat

text \<open>
  What reaches the error stream: a line written by \<open>fprintf(stderr, ...)\<close>, or the
  report that the runtime's \<open>PyErr_Print()\<close> writes.
\<close>

datatype diag = Message string | Traceback

text \<open>The calls into the runtime, with their arguments.\<close>

datatype call =
    PyImport_AppendInittab string
  | PyImport_ExtendInittab "string list"
  | Py_SetProgramName "native option"
  | Py_Initialize
  | PySys_SetArgv nat "native option list"
  | PyImport_ImportFrozenModule string
  | PyList_New
  | PySys_SetObject string "string list"
  | PyImport_AddModule string
  | PyDict_SetItemString string string
  | Py_Finalize
  | PyErr_Print

text \<open>
  The state the function works on: the runtime's global variables it assigns, the
  process locale, the error stream, and the calls made so far.
\<close>

record world =
  Py_FrozenFlag :: int
  Py_NoSiteFlag :: int
  Py_FileSystemDefaultEncoding :: "string option"
  PyImport_FrozenModules :: "frozen list"
  cur_locale :: string
  stderr :: "diag list"
  calls :: "call list"

text \<open>
  The environment: the outcome of every call that can fail.
  \<^item> \<open>PyMem_Malloc_ok i\<close>: the allocation made for argument \<open>i\<close> succeeds (\<open>i = 0\<close> is
    the pointer vector \<open>w_argv\<close>, \<open>i > 0\<close> the buffer of argument \<open>i\<close>);
  \<^item> \<open>environment_locale\<close>: the locale \<open>setlocale(LC_ALL, "")\<close> selects, \<open>None\<close> when
    that call fails and leaves the locale as it was;
  \<^item> \<open>mb_decode l\<close>: the multibyte decoder of locale \<open>l\<close>, \<open>None\<close> on an invalid
    sequence;
  \<^item> \<open>frozen_exec_ok n\<close>: importing the frozen module \<open>n\<close> runs without an error;
  \<^item> \<open>string_ok c j\<close>, \<open>list_append_ok c j\<close>: in the \<open>c\<close>-th call of
    \<open>append_strings\<close>, creating the string object for value \<open>j\<close>, and appending it,
    succeed.
\<close>

record env =
  AppendInittab_rc :: int
  ExtendInittab_rc :: int
  PyMem_Malloc_ok :: "nat \<Rightarrow> bool"
  environment_locale :: "string option"
  mb_decode :: "string \<Rightarrow> byte list \<Rightarrow> wchar list option"
  frozen_exec_ok :: "string \<Rightarrow> bool"
  PyList_New_ok :: bool
  string_ok :: "nat \<Rightarrow> nat \<Rightarrow> bool"
  list_append_ok :: "nat \<Rightarrow> nat \<Rightarrow> bool"
  PySys_SetObject_ok :: bool
  PyImport_AddModule_ok :: bool
  filename_ok :: bool
  PyDict_SetItemString_ok :: bool

text \<open>
  How the function ends: it returns a value, or it has written outside an allocation
  (\<open>w_argv[0] = py_main\<close> with \<open>argc = 0\<close>), after which C defines nothing.
\<close>

datatype outcome = Returned int | Undefined

text \<open>
  How lines 105-185 end: \<open>return 1\<close>, \<open>goto py_error\<close>, the out-of-bounds write, or
  an initialised interpreter.
\<close>

datatype startup = Fatal | Py_error | Out_of_bounds | Started

subsection \<open>Constants of the file\<close>

definition BOOTSTRAP_MODULE :: "config \<Rightarrow> string" where
  "BOOTSTRAP_MODULE cfg = (if py3 cfg then ''_frozen_importlib'' else ''__bootstrap__'')"

text \<open>The replacement table of frozen modules (lines 59-63).\<close>

definition modules :: "config \<Rightarrow> frozen list" where
  "modules cfg =
     [\<lparr>f_name = Some (BOOTSTRAP_MODULE cfg),
       f_code = Some (frozen_pyqtdeploy_bootstrap cfg),
       f_size = length (frozen_pyqtdeploy_bootstrap cfg)\<rparr>,
      \<lparr>f_name = Some ''__main__'',
       f_code = Some (frozen_pyqtdeploy_main cfg),
       f_size = length (frozen_pyqtdeploy_main cfg)\<rparr>,
      \<lparr>f_name = None, f_code = None, f_size = 0\<rparr>]"

text \<open>
  The minimal \<open>sys.path\<close> (lines 66-71). A \<open>NULL\<close>-terminated array of strings is the
  list of the strings before the \<open>NULL\<close>.
\<close>

definition minimal_path :: "string list" where
  "minimal_path = ['':/'', '':/stdlib'', '':/site-packages'']"

subsection \<open>The C library and the runtime, as far as the file uses them\<close>

definition c_content :: "c_string \<Rightarrow> byte list" where
  "c_content arg = takeWhile (\<lambda>b. b \<noteq> 0) arg"

definition strlen :: "c_string \<Rightarrow> nat" where
  "strlen arg = length (c_content arg)"

text \<open>
  \<open>mbstowcs(NULL, arg, 0)\<close>: the number of wide characters the string converts to,
  \<open>None\<close> for \<open>(size_t)-1\<close>.
\<close>

definition mbstowcs_count :: "(byte list \<Rightarrow> wchar list option) \<Rightarrow> c_string \<Rightarrow> nat option" where
  "mbstowcs_count decode arg = map_option length (decode (c_content arg))"

text \<open>
  \<open>mbstowcs(dest, arg, n)\<close>: at most \<open>n\<close> units are written, the terminating zero among
  them when there is room for it (ISO C); \<open>None\<close> for \<open>(size_t)-1\<close>.
\<close>

definition mbstowcs :: "(byte list \<Rightarrow> wchar list option) \<Rightarrow> w_buffer \<Rightarrow> c_string \<Rightarrow> nat \<Rightarrow> w_buffer option" where
  "mbstowcs decode dest arg n =
     (case decode (c_content arg) of
        None \<Rightarrow> None
      | Some ws \<Rightarrow>
          (let out = take n (ws @ [0])
           in Some (map Some out @ drop (length out) dest)))"

text \<open>\<open>setlocale(LC_ALL, "")\<close>.\<close>

definition setlocale_environment :: "env \<Rightarrow> world \<Rightarrow> world" where
  "setlocale_environment e w =
     (case environment_locale e of
        None \<Rightarrow> w
      | Some l \<Rightarrow> w\<lparr>cur_locale := l\<rparr>)"

text \<open>
  The runtime's lookup in the table of frozen modules: it walks the table up to the
  entry with the \<open>NULL\<close> name.
\<close>

fun find_frozen :: "frozen list \<Rightarrow> string \<Rightarrow> frozen option" where
  "find_frozen [] n = None"
| "find_frozen (p # ps) n =
     (case f_name p of
        None \<Rightarrow> None
      | Some m \<Rightarrow> if m = n then Some p else find_frozen ps n)"

text \<open>
  The status of the runtime's \<open>PyImport_ImportFrozenModule\<close>, as the C API documents
  it: 1 for success, 0 when the table has no module of that name, -1 when the import
  failed (and an exception is set).
\<close>

definition import_frozen_status :: "env \<Rightarrow> frozen list \<Rightarrow> string \<Rightarrow> int" where
  "import_frozen_status e table n =
     (case find_frozen table n of
        None \<Rightarrow> 0
      | Some p \<Rightarrow>
          (case f_code p of
             None \<Rightarrow> - 1
           | Some blob \<Rightarrow> if frozen_exec_ok e n then 1 else - 1))"

definition log :: "call \<Rightarrow> world \<Rightarrow> world" where
  "log c w = w\<lparr>calls := calls w @ [c]\<rparr>"

text \<open>
  \<open>fprintf(stderr, ...)\<close> of one line; the text is kept without its final newline.
\<close>

definition fprintf_stderr :: "string \<Rightarrow> world \<Rightarrow> world" where
  "fprintf_stderr msg w = w\<lparr>stderr := stderr w @ [Message msg]\<rparr>"

text \<open>\<open>%d\<close> of a non-negative \<open>int\<close>.\<close>

definition digit :: "nat \<Rightarrow> char" where
  "digit n = ''0123456789'' ! n"

fun decimal :: "nat \<Rightarrow> string" where
  "decimal n = (if n < 10 then [digit n] else decimal (n div 10) @ [digit (n mod 10)])"

declare decimal.simps [simp del]

text \<open>The calls made between two states.\<close>

definition made :: "world \<Rightarrow> world \<Rightarrow> call list" where
  "made w w' = drop (length (calls w)) (calls w')"

text \<open>The lines that reached the error stream between two states.\<close>

definition printed :: "world \<Rightarrow> world \<Rightarrow> diag list" where
  "printed w w' = drop (length (stderr w)) (stderr w')"

subsection \<open>The conversion of one argument without a locale (lines 155-162)\<close>

text \<open>
  \<open>char ch\<close> in an expression is promoted to \<open>int\<close>: sign-extended where plain \<open>char\<close>
  is signed, zero-extended where it is unsigned.
\<close>

definition char_to_int :: "bool \<Rightarrow> byte \<Rightarrow> int" where
  "char_to_int csigned ch = (if csigned then sint ch else uint ch)"

text \<open>The body of the loop: the unit stored for \<open>ch\<close>.\<close>

definition pep383 :: "bool \<Rightarrow> byte \<Rightarrow> wchar" where
  "pep383 csigned ch =
     (if char_to_int csigned ch \<le> 0x7f
      then word_of_int (char_to_int csigned ch)
      else word_of_int (0xdc00 + char_to_int csigned ch))"

text \<open>
  \<open>while ((ch = *arg++) != '\0') ...\<close>, writing through \<open>w_arg\<close>: the buffer and the
  index of the next unit to write.
\<close>

fun pep383_loop :: "bool \<Rightarrow> c_string \<Rightarrow> w_buffer \<Rightarrow> nat \<Rightarrow> w_buffer" where
  "pep383_loop csigned [] w_arg k = w_arg"
| "pep383_loop csigned (ch # arg) w_arg k =
     (if ch = 0 then w_arg
      else pep383_loop csigned arg (w_arg[k := Some (pep383 csigned ch)]) (Suc k))"

text \<open>Lines 137-146 and 155-162 for one argument whose allocation succeeded.\<close>

definition convert_android :: "bool \<Rightarrow> c_string \<Rightarrow> w_buffer" where
  "convert_android csigned arg = pep383_loop csigned arg (replicate (strlen arg + 1) None) 0"

text \<open>
  The reverse of the escape, on code points: \<open>0xDC00 + b\<close> goes back to \<open>b\<close> for the
  escaped code points \<open>0xDC80 .. 0xDCFF\<close>, every other code point is left as it is.
\<close>

definition unescape :: "wchar \<Rightarrow> wchar" where
  "unescape c = (if 0xDC80 \<le> c \<and> c \<le> 0xDCFF then c - 0xDC00 else c)"

subsection \<open>\<open>append_strings\<close> (lines 236-262)\<close>

text \<open>
  The list object is the list of the strings it holds. \<open>create_ok j\<close> says that
  \<open>PyUnicode_FromString\<close> (\<open>PyString_FromString\<close> for Python 2) returns an object for the
  value at index \<open>j\<close>, \<open>append_ok j\<close> that \<open>PyList_Append\<close> of that object returns 0; a
  failed \<open>PyList_Append\<close> leaves the list as it was. \<open>values++\<close> moves on to the next
  value, and the two oracles with it.
\<close>

fun append_strings ::
  "(nat \<Rightarrow> bool) \<Rightarrow> (nat \<Rightarrow> bool) \<Rightarrow> string list \<Rightarrow> string list \<Rightarrow> int \<times> string list" where
  "append_strings create_ok append_ok py_list [] = (0, py_list)"
| "append_strings create_ok append_ok py_list (v # values) =
     (if \<not> create_ok 0 then (- 1, py_list)
      else if \<not> append_ok 0 then (- 1, py_list)
      else append_strings (create_ok \<circ> Suc) (append_ok \<circ> Suc) (py_list @ [v]) values)"

subsection \<open>\<open>pyqtdeploy_start\<close> (lines 54-232)\<close>

text \<open>
  Lines 82-103: the flags, the table of frozen modules, the two registrations. The
  result is \<open>False\<close> where the function returns 1.
\<close>

definition register_tables :: "config \<Rightarrow> env \<Rightarrow> string list option \<Rightarrow> world \<Rightarrow> bool \<times> world" where
  "register_tables cfg e extension_modules w =
     (let w1 = w\<lparr>Py_FrozenFlag := 1, Py_NoSiteFlag := 1\<rparr>;
          w2 = (if android cfg \<and> py3 cfg
                then w1\<lparr>Py_FileSystemDefaultEncoding := Some ''utf-8''\<rparr> else w1);
          w3 = w2\<lparr>PyImport_FrozenModules := modules cfg\<rparr>;
          w4 = log (PyImport_AppendInittab ''pyqtdeploy'') w3
      in if AppendInittab_rc e < 0
         then (False, fprintf_stderr ''PyImport_AppendInittab() failed'' w4)
         else (case extension_modules of
                 None \<Rightarrow> (True, w4)
               | Some ext \<Rightarrow>
                   (let w5 = log (PyImport_ExtendInittab ext) w4
                    in if ExtendInittab_rc e < 0
                       then (False, fprintf_stderr ''PyImport_ExtendInittab() failed'' w5)
                       else (True, w5))))"

text \<open>
  Lines 120-164: the loop over the arguments \<open>argv[i]\<close>, \<open>i = 1 .. argc - 1\<close>. The
  arguments still to convert are a list, \<open>i\<close> is the index of its head. The result is
  \<open>None\<close> where the function returns 1. The slot \<open>w_argv[i]\<close> is shown with the buffer
  as the conversion leaves it.
\<close>

fun convert_arguments ::
  "config \<Rightarrow> env \<Rightarrow> nat \<Rightarrow> c_string list \<Rightarrow> native option list \<Rightarrow> world
     \<Rightarrow> native option list option \<times> world" where
  "convert_arguments cfg e i [] w_argv w = (Some w_argv, w)"
| "convert_arguments cfg e i (arg # rest) w_argv w =
     (if android cfg then
        (if \<not> PyMem_Malloc_ok e i
         then (None, fprintf_stderr ''PyMem_Malloc() failed'' w)
         else convert_arguments cfg e (Suc i) rest
                (w_argv[i := Some (Wide (convert_android (char_signed cfg) arg))]) w)
      else
        (case mbstowcs_count (mb_decode e (cur_locale w)) arg of
           None \<Rightarrow>
             (None, fprintf_stderr (''Could not convert argument '' @ decimal i @ '' to string'') w)
         | Some len \<Rightarrow>
             (if \<not> PyMem_Malloc_ok e i
              then (None, fprintf_stderr ''PyMem_Malloc() failed'' w)
              else (case mbstowcs (mb_decode e (cur_locale w)) (replicate (len + 1) None) arg (len + 1) of
                      None \<Rightarrow>
                        (None, fprintf_stderr
                           (''Could not convert argument '' @ decimal i @ '' to string'') w)
                    | Some w_arg \<Rightarrow>
                        convert_arguments cfg e (Suc i) rest (w_argv[i := Some (Wide w_arg)]) w))))"

text \<open>\<open>Py_SetProgramName(v[0]); Py_Initialize(); PySys_SetArgv(argc, v);\<close>\<close>

definition initialise :: "nat \<Rightarrow> native option list \<Rightarrow> world \<Rightarrow> world" where
  "initialise argc v w =
     log (PySys_SetArgv argc v) (log Py_Initialize (log (Py_SetProgramName (v ! 0)) w))"

text \<open>
  Lines 105-185. \<open>argc\<close> is the length of \<open>argv\<close>.

  Python 3: \<open>w_argv\<close> has \<open>argc\<close> slots, none of them written yet; with \<open>argc = 0\<close> the
  store to \<open>w_argv[0]\<close> is outside the allocation. \<open>saved_locale\<close> is the name of the
  locale at that point (the model keeps the name itself, not the pointer into the C
  library's storage).

  Python 2: the vector \<open>argv\<close> has \<open>argc + 1\<close> slots, the last one \<open>NULL\<close>; \<open>argv[0]\<close> is
  overwritten in place.
\<close>

definition start_interpreter ::
  "config \<Rightarrow> env \<Rightarrow> c_string list \<Rightarrow> native \<Rightarrow> world \<Rightarrow> startup \<times> world" where
  "start_interpreter cfg e argv py_main w =
     (if py3 cfg then
        (if \<not> PyMem_Malloc_ok e 0
         then (Fatal, fprintf_stderr ''PyMem_Malloc() failed'' w)
         else if argv = [] then (Out_of_bounds, w)
         else
           (let w_argv = (replicate (length argv) None)[0 := Some py_main];
                saved_locale = cur_locale w;
                w1 = (if android cfg then w else setlocale_environment e w)
            in case convert_arguments cfg e 1 (tl argv) w_argv w1 of
                 (None, w2) \<Rightarrow> (Fatal, w2)
               | (Some w_argv', w2) \<Rightarrow>
                   (let w3 = (if android cfg then w2 else w2\<lparr>cur_locale := saved_locale\<rparr>)
                    in (Started, initialise (length argv) w_argv' w3))))
      else
        (let argv' = (map (Some \<circ> Narrow) argv @ [None])[0 := Some py_main];
             w1 = initialise (length argv) argv' w;
             w2 = log (PyImport_ImportFrozenModule (BOOTSTRAP_MODULE cfg)) w1
         in if import_frozen_status e (PyImport_FrozenModules w2) (BOOTSTRAP_MODULE cfg) < 0
            then (Py_error, w2)
            else (Started, w2)))"

text \<open>
  Lines 187-222: \<open>sys.path\<close>, the \<open>__file__\<close> attribute, the import of \<open>__main__\<close>. The
  result is \<open>False\<close> where the function jumps to \<open>py_error\<close>.
\<close>

definition configure_and_run ::
  "env \<Rightarrow> string \<Rightarrow> string list option \<Rightarrow> world \<Rightarrow> bool \<times> world" where
  "configure_and_run e py_main_filename path w =
     (let w1 = log PyList_New w
      in if \<not> PyList_New_ok e then (False, w1)
         else
           (case append_strings (string_ok e 0) (list_append_ok e 0) [] minimal_path of
              (rc1, py_path1) \<Rightarrow>
                if rc1 < 0 then (False, w1)
                else
                  (case (case path of
                           None \<Rightarrow> (0, py_path1)
                         | Some p \<Rightarrow> append_strings (string_ok e 1) (list_append_ok e 1) py_path1 p) of
                     (rc2, py_path2) \<Rightarrow>
                       if rc2 < 0 then (False, w1)
                       else
                         (let w2 = log (PySys_SetObject ''path'' py_path2) w1
                          in if \<not> PySys_SetObject_ok e then (False, w2)
                             else
                               (let w3 = log (PyImport_AddModule ''__main__'') w2
                                in if \<not> PyImport_AddModule_ok e then (False, w3)
                                   else if \<not> filename_ok e then (False, w3)
                                   else
                                     (let w4 = log (PyDict_SetItemString ''__file__'' py_main_filename) w3
                                      in if \<not> PyDict_SetItemString_ok e then (False, w4)
                                         else
                                           (let w5 = log (PyImport_ImportFrozenModule ''__main__'') w4
                                            in if import_frozen_status e (PyImport_FrozenModules w5) ''__main__'' < 0
                                               then (False, w5)
                                               else (True, w5))))))))"

text \<open>
  The label \<open>py_error\<close> (lines 229-231). The calls into the runtime are taken to return:
  \<open>PyErr_Print\<close> writes its report of the pending error to the error stream and comes back,
  \<open>Py_Initialize\<close> comes back with the interpreter initialised.
\<close>

definition py_error :: "world \<Rightarrow> outcome \<times> world" where
  "py_error w = (Returned 1, (log PyErr_Print w)\<lparr>stderr := stderr w @ [Traceback]\<rparr>)"

text \<open>
  The entry point. \<open>extension_modules\<close> and \<open>path\<close> are \<open>None\<close> for \<open>NULL\<close>; of the table of
  extension modules only the names are kept.
\<close>

definition pyqtdeploy_start ::
  "config \<Rightarrow> env \<Rightarrow> c_string list \<Rightarrow> native \<Rightarrow> string \<Rightarrow> string list option
     \<Rightarrow> string list option \<Rightarrow> world \<Rightarrow> outcome \<times> world" where
  "pyqtdeploy_start cfg e argv py_main py_main_filename extension_modules path w =
     (case register_tables cfg e extension_modules w of
        (False, w1) \<Rightarrow> (Returned 1, w1)
      | (True, w1) \<Rightarrow>
          (case start_interpreter cfg e argv py_main w1 of
             (Fatal, w2) \<Rightarrow> (Returned 1, w2)
           | (Out_of_bounds, w2) \<Rightarrow> (Undefined, w2)
           | (Py_error, w2) \<Rightarrow> py_error w2
           | (Started, w2) \<Rightarrow>
               (case configure_and_run e py_main_filename path w2 of
                  (False, w3) \<Rightarrow> py_error w3
                | (True, w3) \<Rightarrow> (Returned 0, log Py_Finalize w3))))"

subsection \<open>Auxiliary notions for the statements\<close>

text \<open>
  The buffer that lines 126-163 produce for one argument when nothing fails: in locale
  \<open>l\<close> on the locale-aware path, \<open>None\<close> when the argument cannot be decoded.
\<close>

definition wide_argument :: "config \<Rightarrow> env \<Rightarrow> string \<Rightarrow> c_string \<Rightarrow> w_buffer option" where
  "wide_argument cfg e l arg =
     (if android cfg then Some (convert_android (char_signed cfg) arg)
      else map_option (\<lambda>ws. map Some ws @ [Some 0]) (mb_decode e l (c_content arg)))"

text \<open>The calls of lines 187-222 when none of them fails.\<close>

definition run_calls :: "string \<Rightarrow> string list option \<Rightarrow> call list" where
  "run_calls py_main_filename path =
     [PyList_New,
      PySys_SetObject ''path'' (minimal_path @ (case path of None \<Rightarrow> [] | Some p \<Rightarrow> p)),
      PyImport_AddModule ''__main__'',
      PyDict_SetItemString ''__file__'' py_main_filename,
      PyImport_ImportFrozenModule ''__main__'']"

text \<open>A list of calls that holds registrations in the table of built-in modules only.\<close>

definition registrations :: "call list \<Rightarrow> bool" where
  "registrations cs =
     list_all (\<lambda>c. case c of PyImport_AppendInittab n \<Rightarrow> True
                     | PyImport_ExtendInittab x \<Rightarrow> True
                     | _ \<Rightarrow> False) cs"

text \<open>
  The locale after \<open>setlocale(LC_ALL, "")\<close>: the one the conversions of the locale-aware
  path run under.
\<close>

definition conversion_locale :: "env \<Rightarrow> world \<Rightarrow> string" where
  "conversion_locale e w =
     (case environment_locale e of None \<Rightarrow> cur_locale w | Some l \<Rightarrow> l)"

text \<open>
  The vector handed to \<open>PySys_SetArgv\<close> when every conversion succeeds (for Python 2 the
  vector \<open>argv\<close> itself, with its final \<open>NULL\<close>).
\<close>

definition argument_vector :: "config \<Rightarrow> env \<Rightarrow> string \<Rightarrow> native \<Rightarrow> c_string list \<Rightarrow> native option list" where
  "argument_vector cfg e l py_main argv =
     (if py3 cfg
      then Some py_main # map (map_option Wide \<circ> wide_argument cfg e l) (tl argv)
      else (map (Some \<circ> Narrow) argv @ [None])[0 := Some py_main])"

text \<open>The calls of lines 170-185.\<close>

definition init_calls :: "config \<Rightarrow> native \<Rightarrow> nat \<Rightarrow> native option list \<Rightarrow> call list" where
  "init_calls cfg py_main argc v =
     [Py_SetProgramName (Some py_main), Py_Initialize, PySys_SetArgv argc v]
     @ (if py3 cfg then [] else [PyImport_ImportFrozenModule (BOOTSTRAP_MODULE cfg)])"

subsection \<open>Sample builds, environments and inputs\<close>

text \<open>
  Concrete values on which the definitions are evaluated: three build variants, an
  environment in which nothing fails (its only locale decodes ASCII and rejects every byte
  above \<open>0x7f\<close>), the state at entry, and two strings.
\<close>

definition build_posix :: config where
  "build_posix = \<lparr>py3 = True, android = False, char_signed = True,
     frozen_pyqtdeploy_bootstrap = [0x63], frozen_pyqtdeploy_main = [0x63]\<rparr>"

definition build_android_arm :: config where
  "build_android_arm = \<lparr>py3 = True, android = True, char_signed = False,
     frozen_pyqtdeploy_bootstrap = [0x63], frozen_pyqtdeploy_main = [0x63]\<rparr>"

definition build_android_x86 :: config where
  "build_android_x86 = \<lparr>py3 = True, android = True, char_signed = True,
     frozen_pyqtdeploy_bootstrap = [0x63], frozen_pyqtdeploy_main = [0x63]\<rparr>"

definition ascii_decode :: "byte list \<Rightarrow> wchar list option" where
  "ascii_decode bs = (if list_all (\<lambda>b. b \<le> 0x7f) bs then Some (map ucast bs) else None)"

definition healthy :: env where
  "healthy = \<lparr>AppendInittab_rc = 0, ExtendInittab_rc = 0, PyMem_Malloc_ok = (\<lambda>i. True),
     environment_locale = Some ''en_US.UTF-8'', mb_decode = (\<lambda>l. ascii_decode),
     frozen_exec_ok = (\<lambda>n. True), PyList_New_ok = True, string_ok = (\<lambda>c j. True),
     list_append_ok = (\<lambda>c j. True), PySys_SetObject_ok = True, PyImport_AddModule_ok = True,
     filename_ok = True, PyDict_SetItemString_ok = True\<rparr>"

definition at_entry :: world where
  "at_entry = \<lparr>Py_FrozenFlag = 0, Py_NoSiteFlag = 0, Py_FileSystemDefaultEncoding = None,
     PyImport_FrozenModules = [], cur_locale = ''C'', stderr = [], calls = []\<rparr>"

definition prog :: c_string where
  "prog = [0x70, 0x72, 0x6f, 0x67]"

definition app_prog :: native where
  "app_prog = Wide [Some 0x2f, Some 0x61, Some 0x70, Some 0x70, Some 0]"

section \<open>Properties\<close>

subsection \<open>The escape of one byte\<close>

lemma uint_byte_bound: "uint (b :: byte) < 256"
  using uint_bounded [of b] by simp

lemma uint_pep383_unsigned:
  "uint (pep383 False b) = (if uint b \<le> 127 then uint b else 0xdc00 + uint b)"
proof -
  have low: "uint (word_of_int (uint b) :: wchar) = uint b"
    by (simp add: uint_up_ucast is_up)
  have high: "uint (word_of_int (0xdc00 + uint b) :: wchar) = 0xdc00 + uint b"
    using uint_byte_bound [of b] uint_ge_0 [of b]
    by (subst uint_word_of_int) (simp add: take_bit_eq_mod)
  show ?thesis
  proof (cases "uint b \<le> 127")
    case True
    then show ?thesis unfolding pep383_def char_to_int_def using low by (simp only: if_False if_True)
  next
    case False
    then show ?thesis unfolding pep383_def char_to_int_def using high by (simp only: if_False if_True)
  qed
qed

lemma uint_unescape:
  "uint (unescape c) =
     (if 0xDC80 \<le> uint c \<and> uint c \<le> 0xDCFF then uint c - 0xDC00 else uint c)"
  by (simp add: unescape_def word_le_def uint_sub_if_size)

lemma unescape_pep383_unsigned: "unescape (pep383 False b) = ucast b"
proof (rule word_uint_eqI)
  have "uint (unescape (pep383 False b)) = uint b"
    using uint_byte_bound [of b] by (simp add: uint_unescape uint_pep383_unsigned)
  then show "uint (unescape (pep383 False b)) = uint (ucast b :: wchar)"
    by (simp add: uint_up_ucast is_up)
qed

lemma pep383_loop_eq:
  "k + length (c_content arg) \<le> length w_arg \<Longrightarrow>
   pep383_loop s arg w_arg k =
     take k w_arg @ map (Some \<circ> pep383 s) (c_content arg) @ drop (k + length (c_content arg)) w_arg"
proof (induction arg arbitrary: w_arg k)
  case Nil
  then show ?case by (simp add: c_content_def)
next
  case (Cons ch arg)
  show ?case
  proof (cases "ch = 0")
    case True
    then show ?thesis by (simp add: c_content_def)
  next
    case False
    have len: "Suc k + length (c_content arg) \<le> length (w_arg[k := Some (pep383 s ch)])"
      using Cons.prems False by (simp add: c_content_def)
    have "k < length w_arg"
      using Cons.prems False by (simp add: c_content_def)
    then have upd: "take (Suc k) (w_arg[k := Some (pep383 s ch)]) = take k w_arg @ [Some (pep383 s ch)]"
      by (simp add: take_Suc_conv_app_nth)
    show ?thesis
      using False Cons.IH [OF len] upd
      by (simp add: c_content_def)
  qed
qed

lemma convert_android_eq:
  "convert_android s arg = map (Some \<circ> pep383 s) (c_content arg) @ [None]"
proof -
  let ?n = "length (c_content arg)"
  have buf: "replicate (?n + 1) (None :: wchar option) = replicate ?n None @ [None]"
    by (simp add: replicate_append_same)
  have "pep383_loop s arg (replicate (?n + 1) None) 0 =
          take 0 (replicate (?n + 1) None) @ map (Some \<circ> pep383 s) (c_content arg)
            @ drop (0 + ?n) (replicate (?n + 1) None)"
    by (rule pep383_loop_eq) simp
  also have "\<dots> = map (Some \<circ> pep383 s) (c_content arg) @ [None]"
    by (simp only: buf) simp
  finally show ?thesis
    by (simp add: convert_android_def strlen_def)
qed

subsection \<open>The conversion loop\<close>

lemma mbstowcs_exact:
  "decode (c_content arg) = Some ws \<Longrightarrow>
   mbstowcs decode (replicate (length ws + 1) None) arg (length ws + 1) = Some (map Some ws @ [Some 0])"
  by (simp add: mbstowcs_def)

lemma convert_arguments_frame:
  "convert_arguments cfg e i rest v w = (r, w2) \<Longrightarrow>
     calls w2 = calls w \<and> cur_locale w2 = cur_locale w \<and>
     PyImport_FrozenModules w2 = PyImport_FrozenModules w \<and>
     (case r of None \<Rightarrow> (\<exists>m. stderr w2 = stderr w @ [Message m]) | Some v' \<Rightarrow> w2 = w)"
proof (induction rest arbitrary: i v)
  case Nil
  then show ?case by auto
next
  case (Cons arg rest)
  show ?case
  proof (cases "android cfg")
    case True
    show ?thesis
    proof (cases "PyMem_Malloc_ok e i")
      case ok: True
      with True Cons.prems have
        "convert_arguments cfg e (Suc i) rest
           (v[i := Some (Wide (convert_android (char_signed cfg) arg))]) w = (r, w2)"
        by simp
      then show ?thesis by (rule Cons.IH)
    next
      case False
      with True Cons.prems show ?thesis
        by (auto simp: fprintf_stderr_def)
    qed
  next
    case False
    show ?thesis
    proof (cases "mbstowcs_count (mb_decode e (cur_locale w)) arg")
      case None
      with False Cons.prems show ?thesis
        by (auto simp: fprintf_stderr_def)
    next
      case (Some len)
      show ?thesis
      proof (cases "PyMem_Malloc_ok e i")
        case nok: False
        with False Some Cons.prems show ?thesis
          by (auto simp: fprintf_stderr_def)
      next
        case ok: True
        show ?thesis
        proof (cases "mbstowcs (mb_decode e (cur_locale w)) (replicate (len + 1) None) arg (len + 1)")
          case None
          with False Some ok Cons.prems show ?thesis
            by (auto simp: fprintf_stderr_def)
        next
          case (Some w_arg)
          with False \<open>mbstowcs_count (mb_decode e (cur_locale w)) arg = Some len\<close> ok Cons.prems
          have "convert_arguments cfg e (Suc i) rest (v[i := Some (Wide w_arg)]) w = (r, w2)"
            by simp
          then show ?thesis by (rule Cons.IH)
        qed
      qed
    qed
  qed
qed

lemma convert_arguments_result:
  "convert_arguments cfg e i rest v w = (Some v', w2) \<Longrightarrow> i + length rest \<le> length v \<Longrightarrow>
     v' = take i v @ map (map_option Wide \<circ> wide_argument cfg e (cur_locale w)) rest
            @ drop (i + length rest) v \<and>
     None \<notin> wide_argument cfg e (cur_locale w) ` set rest"
proof (induction rest arbitrary: i v)
  case Nil
  then show ?case by simp
next
  case (Cons arg rest)
  have i: "i < length v" using Cons.prems(2) by simp
  have tk: "take (Suc i) (v[i := x]) = take i v @ [x]" for x
    using i by (simp add: take_Suc_conv_app_nth)
  have len: "Suc i + length rest \<le> length (v[i := x])" for x
    using Cons.prems(2) by simp
  show ?case
  proof (cases "android cfg")
    case True
    have ok: "PyMem_Malloc_ok e i"
      using Cons.prems(1) True by (cases "PyMem_Malloc_ok e i") simp_all
    with Cons.prems(1) True have step: "convert_arguments cfg e (Suc i) rest
                   (v[i := Some (Wide (convert_android (char_signed cfg) arg))]) w = (Some v', w2)"
      by simp
    from Cons.IH [OF step len] True show ?thesis
      by (simp add: tk wide_argument_def)
  next
    case False
    obtain ws where dec: "mb_decode e (cur_locale w) (c_content arg) = Some ws"
      using Cons.prems(1) False
      by (cases "mb_decode e (cur_locale w) (c_content arg)") (simp_all add: mbstowcs_count_def)
    have ok: "PyMem_Malloc_ok e i"
      using Cons.prems(1) False dec
      by (cases "PyMem_Malloc_ok e i") (simp_all add: mbstowcs_count_def)
    have step: "convert_arguments cfg e (Suc i) rest
                   (v[i := Some (Wide (map Some ws @ [Some 0]))]) w = (Some v', w2)"
      using Cons.prems(1) False dec ok
      by (simp add: mbstowcs_count_def mbstowcs_def)
    from Cons.IH [OF step len] False dec show ?thesis
      by (simp add: tk wide_argument_def)
  qed
qed

lemma convert_arguments_malloc_failure:
  "k < length rest \<Longrightarrow> \<not> PyMem_Malloc_ok e (i + k) \<Longrightarrow>
     fst (convert_arguments cfg e i rest v w) = None"
proof (induction rest arbitrary: i k v)
  case Nil
  then show ?case by simp
next
  case (Cons arg rest)
  show ?case
  proof (cases k)
    case 0
    with Cons.prems show ?thesis
      by (simp split: option.splits)
  next
    case (Suc k')
    with Cons.prems have "fst (convert_arguments cfg e (Suc i) rest v' w) = None" for v'
      using Cons.IH [of k' "Suc i" v'] by simp
    then show ?thesis
      by (simp split: option.splits)
  qed
qed

subsection \<open>\<open>append_strings\<close>\<close>

lemma append_strings_all_ok:
  "(\<forall>i<length vs. c i \<and> a i) \<Longrightarrow> append_strings c a l vs = (0, l @ vs)"
proof (induction vs arbitrary: c a l)
  case Nil
  then show ?case by simp
next
  case (Cons v vs)
  from Cons.prems have head: "c 0" "a 0" by auto
  from Cons.prems have "\<forall>i<length vs. (c \<circ> Suc) i \<and> (a \<circ> Suc) i" by auto
  then have "append_strings (c \<circ> Suc) (a \<circ> Suc) (l @ [v]) vs = (0, (l @ [v]) @ vs)"
    by (rule Cons.IH)
  with head show ?case by simp
qed

lemma append_strings_first_failure:
  "j < length vs \<Longrightarrow> (\<forall>i<j. c i \<and> a i) \<Longrightarrow> \<not> (c j \<and> a j) \<Longrightarrow>
     append_strings c a l vs = (- 1, l @ take j vs)"
proof (induction vs arbitrary: c a l j)
  case Nil
  then show ?case by simp
next
  case (Cons v vs)
  show ?case
  proof (cases j)
    case 0
    with Cons.prems show ?thesis by auto
  next
    case (Suc j')
    with Cons.prems have head: "c 0" "a 0" by auto
    from Cons.prems Suc have "j' < length vs" "\<forall>i<j'. (c \<circ> Suc) i \<and> (a \<circ> Suc) i"
      "\<not> ((c \<circ> Suc) j' \<and> (a \<circ> Suc) j')" by auto
    then have "append_strings (c \<circ> Suc) (a \<circ> Suc) (l @ [v]) vs = (- 1, (l @ [v]) @ take j' vs)"
      by (rule Cons.IH)
    with head Suc show ?thesis by simp
  qed
qed

lemma append_strings_cases:
  obtains (all) "\<forall>i<length vs. c i \<and> a i" "append_strings c a l vs = (0, l @ vs)"
  | (failure) j where "j < length vs" "\<forall>i<j. c i \<and> a i" "\<not> (c j \<and> a j)"
      "append_strings c a l vs = (- 1, l @ take j vs)"
proof (cases "\<forall>i<length vs. c i \<and> a i")
  case True
  then show ?thesis using all append_strings_all_ok by blast
next
  case False
  define j where "j = (LEAST i. i < length vs \<and> \<not> (c i \<and> a i))"
  from False have ex: "\<exists>i. i < length vs \<and> \<not> (c i \<and> a i)" by blast
  then have j: "j < length vs \<and> \<not> (c j \<and> a j)"
    unfolding j_def by (rule LeastI_ex)
  have least: "\<forall>i<j. c i \<and> a i"
  proof (intro allI impI)
    fix i assume "i < j"
    then have "\<not> (i < length vs \<and> \<not> (c i \<and> a i))"
      unfolding j_def by (rule not_less_Least)
    with \<open>i < j\<close> j show "c i \<and> a i" by auto
  qed
  from j least show ?thesis
    using failure append_strings_first_failure [of j vs c a l] by blast
qed

lemma append_strings_status: "fst (append_strings c a l vs) = 0 \<or> fst (append_strings c a l vs) = - 1"
  by (cases rule: append_strings_cases [of vs c a l]) simp_all

lemma append_strings_zero_iff:
  "fst (append_strings c a l vs) = 0 \<longleftrightarrow> (\<forall>i<length vs. c i \<and> a i)"
  by (cases rule: append_strings_cases [of vs c a l]) auto

lemma append_strings_not_negative:
  "append_strings c a l vs = (rc, l') \<Longrightarrow> \<not> rc < 0 \<Longrightarrow> l' = l @ vs"
  by (cases rule: append_strings_cases [of vs c a l]) simp_all

subsection \<open>The stages of \<open>pyqtdeploy_start\<close>\<close>

lemma log_simps [simp]:
  "calls (log c w) = calls w @ [c]"
  "stderr (log c w) = stderr w"
  "cur_locale (log c w) = cur_locale w"
  "PyImport_FrozenModules (log c w) = PyImport_FrozenModules w"
  by (simp_all add: log_def)

lemma fprintf_stderr_simps [simp]:
  "calls (fprintf_stderr m w) = calls w"
  "stderr (fprintf_stderr m w) = stderr w @ [Message m]"
  "cur_locale (fprintf_stderr m w) = cur_locale w"
  "PyImport_FrozenModules (fprintf_stderr m w) = PyImport_FrozenModules w"
  by (simp_all add: fprintf_stderr_def)

lemma setlocale_environment_simps [simp]:
  "calls (setlocale_environment e w) = calls w"
  "stderr (setlocale_environment e w) = stderr w"
  "PyImport_FrozenModules (setlocale_environment e w) = PyImport_FrozenModules w"
  by (simp_all add: setlocale_environment_def split: option.splits)

lemma initialise_simps [simp]:
  "calls (initialise n v w) = calls w @ [Py_SetProgramName (v ! 0), Py_Initialize, PySys_SetArgv n v]"
  "stderr (initialise n v w) = stderr w"
  "cur_locale (initialise n v w) = cur_locale w"
  "PyImport_FrozenModules (initialise n v w) = PyImport_FrozenModules w"
  by (simp_all add: initialise_def)

lemma register_tables_cases:
  assumes "register_tables cfg e ext w = (ok, w1)"
  obtains cs ms where
    "calls w1 = calls w @ cs"
    "\<forall>c\<in>set cs. (\<exists>n. c = PyImport_AppendInittab n) \<or> (\<exists>x. c = PyImport_ExtendInittab x)"
    "stderr w1 = stderr w @ ms"
    "ok \<longleftrightarrow> ms = []"
    "ok \<longleftrightarrow> \<not> AppendInittab_rc e < 0 \<and> (ext = None \<or> \<not> ExtendInittab_rc e < 0)"
    "cur_locale w1 = cur_locale w"
    "PyImport_FrozenModules w1 = modules cfg"
proof (cases "AppendInittab_rc e < 0")
  case True
  with assms that [of "[PyImport_AppendInittab ''pyqtdeploy'']" "[Message ''PyImport_AppendInittab() failed'']"]
  show ?thesis
    by (auto simp: register_tables_def Let_def)
next
  case False
  show ?thesis
  proof (cases ext)
    case None
    with False assms that [of "[PyImport_AppendInittab ''pyqtdeploy'']" "[]"]
    show ?thesis
      by (auto simp: register_tables_def Let_def)
  next
    case (Some x)
    show ?thesis
    proof (cases "ExtendInittab_rc e < 0")
      case True
      with \<open>\<not> AppendInittab_rc e < 0\<close> Some assms
        that [of "[PyImport_AppendInittab ''pyqtdeploy'', PyImport_ExtendInittab x]"
                 "[Message ''PyImport_ExtendInittab() failed'']"]
      show ?thesis
        by (auto simp: register_tables_def Let_def)
    next
      case False
      with \<open>\<not> AppendInittab_rc e < 0\<close> Some assms
        that [of "[PyImport_AppendInittab ''pyqtdeploy'', PyImport_ExtendInittab x]" "[]"]
      show ?thesis
        by (auto simp: register_tables_def Let_def)
    qed
  qed
qed

lemma start_interpreter_table:
  "start_interpreter cfg e argv py_main w = (r, w') \<Longrightarrow>
     PyImport_FrozenModules w' = PyImport_FrozenModules w"
proof -
  assume run: "start_interpreter cfg e argv py_main w = (r, w')"
  obtain r2 w2 where conv:
    "convert_arguments cfg e 1 (tl argv) ((replicate (length argv) None)[0 := Some py_main])
       (if android cfg then w else setlocale_environment e w) = (r2, w2)"
    by force
  from convert_arguments_frame [OF conv]
  have "PyImport_FrozenModules w2 = PyImport_FrozenModules w"
    by (simp split: if_splits)
  with run conv show ?thesis
    by (auto simp: start_interpreter_def Let_def split: if_splits option.splits)
qed

lemma start_interpreter_py3_cases:
  assumes "py3 cfg" and "start_interpreter cfg e argv py_main w = (r, w')"
  obtains (Fatal) m where "r = Fatal" "calls w' = calls w" "stderr w' = stderr w @ [Message m]"
  | (Out_of_bounds) "r = Out_of_bounds" "argv = []" "PyMem_Malloc_ok e 0" "w' = w"
  | (Started) v where "r = Started" "argv \<noteq> []"
      "calls w' = calls w @ [Py_SetProgramName (Some py_main), Py_Initialize, PySys_SetArgv (length argv) v]"
      "stderr w' = stderr w" "cur_locale w' = cur_locale w"
      "v = Some py_main # map (map_option Wide \<circ> wide_argument cfg e (cur_locale (setlocale_environment e w))) (tl argv)"
      "None \<notin> wide_argument cfg e (cur_locale (setlocale_environment e w)) ` set (tl argv)"
proof (cases "PyMem_Malloc_ok e 0")
  case False
  with assms Fatal [of "''PyMem_Malloc() failed''"] show ?thesis
    by (auto simp: start_interpreter_def)
next
  case ok: True
  show ?thesis
  proof (cases "argv = []")
    case True
    with assms ok Out_of_bounds show ?thesis
      by (simp add: start_interpreter_def)
  next
    case False
    let ?w1 = "if android cfg then w else setlocale_environment e w"
    let ?v0 = "(replicate (length argv) None)[0 := Some py_main]"
    obtain r2 w2 where conv: "convert_arguments cfg e 1 (tl argv) ?v0 ?w1 = (r2, w2)"
      by force
    note frame = convert_arguments_frame [OF conv]
    show ?thesis
    proof (cases r2)
      case None
      with frame obtain m where "stderr w2 = stderr ?w1 @ [Message m]" by auto
      with None assms ok False conv frame Fatal [of m] show ?thesis
        by (simp add: start_interpreter_def Let_def split: if_splits)
    next
      case (Some v)
      with frame have w2: "w2 = ?w1" by simp
      have len: "1 + length (tl argv) \<le> length ?v0" using False by (cases argv) simp_all
      from convert_arguments_result [OF conv [unfolded Some] len]
      have v: "v = take 1 ?v0 @ map (map_option Wide \<circ> wide_argument cfg e (cur_locale ?w1)) (tl argv)
                     @ drop (1 + length (tl argv)) ?v0"
        and dec: "None \<notin> wide_argument cfg e (cur_locale ?w1) ` set (tl argv)"
        by simp_all
      have loc: "wide_argument cfg e (cur_locale ?w1) = wide_argument cfg e (cur_locale (setlocale_environment e w))"
        by (auto simp: wide_argument_def fun_eq_iff)
      have v': "v = Some py_main # map (map_option Wide \<circ> wide_argument cfg e (cur_locale (setlocale_environment e w))) (tl argv)"
        using v False unfolding loc by (cases argv) simp_all
      have res: "r = Started" "w' = initialise (length argv) v
                  (if android cfg then w2 else w2\<lparr>cur_locale := cur_locale w\<rparr>)"
        using assms ok False conv Some by (simp_all add: start_interpreter_def Let_def)
      show ?thesis
      proof (rule Started [of v])
        show "r = Started" by (rule res)
        show "argv \<noteq> []" by (rule False)
        show "calls w' = calls w @ [Py_SetProgramName (Some py_main), Py_Initialize, PySys_SetArgv (length argv) v]"
          using res w2 v' by simp
        show "stderr w' = stderr w" using res w2 by simp
        show "cur_locale w' = cur_locale w" using res w2 by simp
        show "v = Some py_main # map (map_option Wide \<circ> wide_argument cfg e (cur_locale (setlocale_environment e w))) (tl argv)"
          by (rule v')
        show "None \<notin> wide_argument cfg e (cur_locale (setlocale_environment e w)) ` set (tl argv)"
          using dec unfolding loc .
      qed
    qed
  qed
qed

lemma start_interpreter_malloc_failure:
  assumes "py3 cfg" "0 < k" "k < length argv" "\<not> PyMem_Malloc_ok e k"
  shows "fst (start_interpreter cfg e argv py_main w) = Fatal"
proof -
  from assms have ne: "argv \<noteq> []" by auto
  from assms have "k - 1 < length (tl argv)" "\<not> PyMem_Malloc_ok e (1 + (k - 1))" by auto
  then have "fst (convert_arguments cfg e 1 (tl argv) v0 w0) = None" for v0 w0
    by (rule convert_arguments_malloc_failure)
  then obtain w2 where
    "convert_arguments cfg e 1 (tl argv) ((replicate (length argv) None)[0 := Some py_main])
       (if android cfg then w else setlocale_environment e w) = (None, w2)"
    by (metis prod.collapse)
  then show ?thesis
    using assms(1) ne
    by (simp add: start_interpreter_def Let_def)
qed

lemma start_interpreter_started_mallocs:
  assumes "py3 cfg" and "start_interpreter cfg e argv py_main w = (Started, w')"
    and "k < length argv"
  shows "PyMem_Malloc_ok e k"
proof (rule ccontr)
  assume bad: "\<not> PyMem_Malloc_ok e k"
  show False
  proof (cases k)
    case 0
    with bad assms(1,2) show False
      by (simp add: start_interpreter_def)
  next
    case (Suc j)
    with bad assms(1,3) have "fst (start_interpreter cfg e argv py_main w) = Fatal"
      by (intro start_interpreter_malloc_failure) simp_all
    with assms(2) show False by simp
  qed
qed

lemma start_interpreter_py2:
  assumes "\<not> py3 cfg" and "start_interpreter cfg e argv py_main w = (r, w')"
  shows "calls w' = calls w @
           [Py_SetProgramName (Some py_main), Py_Initialize,
            PySys_SetArgv (length argv) ((map (Some \<circ> Narrow) argv @ [None])[0 := Some py_main]),
            PyImport_ImportFrozenModule (BOOTSTRAP_MODULE cfg)]"
    and "stderr w' = stderr w" and "cur_locale w' = cur_locale w"
    and "r = (if import_frozen_status e (PyImport_FrozenModules w) (BOOTSTRAP_MODULE cfg) < 0
              then Py_error else Started)"
proof -
  have zero: "((map (Some \<circ> Narrow) argv @ [None])[0 := Some py_main]) ! 0 = Some py_main"
    by (cases argv) simp_all
  from assms zero show
    "calls w' = calls w @
           [Py_SetProgramName (Some py_main), Py_Initialize,
            PySys_SetArgv (length argv) ((map (Some \<circ> Narrow) argv @ [None])[0 := Some py_main]),
            PyImport_ImportFrozenModule (BOOTSTRAP_MODULE cfg)]"
    "stderr w' = stderr w" "cur_locale w' = cur_locale w"
    "r = (if import_frozen_status e (PyImport_FrozenModules w) (BOOTSTRAP_MODULE cfg) < 0
              then Py_error else Started)"
    by (auto simp: start_interpreter_def Let_def split: if_splits)
qed

lemma configure_and_run_cases:
  assumes "configure_and_run e fn path w = (ok, w')"
  obtains n where
    "calls w' = calls w @ take n (run_calls fn path)" "0 < n" "n \<le> 5"
    "ok \<longleftrightarrow> n = 5 \<and> \<not> import_frozen_status e (PyImport_FrozenModules w) ''__main__'' < 0"
    "stderr w' = stderr w" "cur_locale w' = cur_locale w"
    "PyImport_FrozenModules w' = PyImport_FrozenModules w"
proof -
  obtain rc1 p1 where a1:
    "append_strings (string_ok e 0) (list_append_ok e 0) [] minimal_path = (rc1, p1)"
    by force
  obtain rc2 p2 where a2:
    "(case path of None \<Rightarrow> (0, p1)
      | Some p \<Rightarrow> append_strings (string_ok e 1) (list_append_ok e 1) p1 p) = (rc2, p2)"
    by force
  have p1: "p1 = minimal_path" if "\<not> rc1 < 0"
    using append_strings_not_negative [OF a1 that] by simp
  have p2: "p2 = minimal_path @ (case path of None \<Rightarrow> [] | Some p \<Rightarrow> p)"
    if "\<not> rc1 < 0" "\<not> rc2 < 0"
    using a2 p1 [OF that(1)] that(2) append_strings_not_negative
    by (cases path) auto
  consider
      (list) "\<not> PyList_New_ok e"
    | (minimal) "PyList_New_ok e" "rc1 < 0"
    | (extra) "PyList_New_ok e" "\<not> rc1 < 0" "rc2 < 0"
    | (set_object) "PyList_New_ok e" "\<not> rc1 < 0" "\<not> rc2 < 0" "\<not> PySys_SetObject_ok e"
    | (add_module) "PyList_New_ok e" "\<not> rc1 < 0" "\<not> rc2 < 0" "PySys_SetObject_ok e"
        "\<not> PyImport_AddModule_ok e"
    | (filename) "PyList_New_ok e" "\<not> rc1 < 0" "\<not> rc2 < 0" "PySys_SetObject_ok e"
        "PyImport_AddModule_ok e" "\<not> filename_ok e"
    | (set_item) "PyList_New_ok e" "\<not> rc1 < 0" "\<not> rc2 < 0" "PySys_SetObject_ok e"
        "PyImport_AddModule_ok e" "filename_ok e" "\<not> PyDict_SetItemString_ok e"
    | (import) "PyList_New_ok e" "\<not> rc1 < 0" "\<not> rc2 < 0" "PySys_SetObject_ok e"
        "PyImport_AddModule_ok e" "filename_ok e" "PyDict_SetItemString_ok e"
    by blast
  then show thesis
  proof cases
    case list
    with assms a1 a2 that [of 1] show ?thesis
      by (auto simp: configure_and_run_def Let_def run_calls_def)
  next
    case minimal
    with assms a1 a2 that [of 1] show ?thesis
      by (auto simp: configure_and_run_def Let_def run_calls_def)
  next
    case extra
    with assms a1 a2 that [of 1] show ?thesis
      by (auto simp: configure_and_run_def Let_def run_calls_def)
  next
    case set_object
    with assms a1 a2 p2 that [of 2] show ?thesis
      by (auto simp: configure_and_run_def Let_def run_calls_def)
  next
    case add_module
    with assms a1 a2 p2 that [of 3] show ?thesis
      by (auto simp: configure_and_run_def Let_def run_calls_def)
  next
    case filename
    with assms a1 a2 p2 that [of 3] show ?thesis
      by (auto simp: configure_and_run_def Let_def run_calls_def)
  next
    case set_item
    with assms a1 a2 p2 that [of 4] show ?thesis
      by (auto simp: configure_and_run_def Let_def run_calls_def)
  next
    case import
    with assms a1 a2 p2 that [of 5] show ?thesis
      by (auto simp: configure_and_run_def Let_def run_calls_def split: if_splits)
  qed
qed

lemma configure_and_run_success:
  assumes "configure_and_run e fn path w = (True, w')"
  shows "PyList_New_ok e" "PySys_SetObject_ok e" "PyImport_AddModule_ok e" "filename_ok e"
    "PyDict_SetItemString_ok e"
    "\<forall>j<length minimal_path. string_ok e 0 j \<and> list_append_ok e 0 j"
    "\<forall>p. path = Some p \<longrightarrow> (\<forall>j<length p. string_ok e 1 j \<and> list_append_ok e 1 j)"
proof -
  obtain rc1 p1 where a1:
    "append_strings (string_ok e 0) (list_append_ok e 0) [] minimal_path = (rc1, p1)"
    by force
  obtain rc2 p2 where a2:
    "(case path of None \<Rightarrow> (0, p1)
      | Some p \<Rightarrow> append_strings (string_ok e 1) (list_append_ok e 1) p1 p) = (rc2, p2)"
    by force
  have new: "PyList_New_ok e"
    using assms by (cases "PyList_New_ok e") (simp_all add: configure_and_run_def Let_def)
  have rc1: "\<not> rc1 < 0"
    using assms a1 new by (cases "rc1 < 0") (simp_all add: configure_and_run_def Let_def)
  have rc2: "\<not> rc2 < 0"
    using assms a1 a2 new rc1 by (cases "rc2 < 0") (simp_all add: configure_and_run_def Let_def)
  have rest: "PySys_SetObject_ok e \<and> PyImport_AddModule_ok e \<and> filename_ok e
                \<and> PyDict_SetItemString_ok e"
    using assms a1 a2 new rc1 rc2
    by (simp add: configure_and_run_def Let_def split: if_splits)
  have zero1: "rc1 = 0"
    using append_strings_status [of "string_ok e 0" "list_append_ok e 0" "[]" minimal_path] a1 rc1
    by auto
  have min: "\<forall>j<length minimal_path. string_ok e 0 j \<and> list_append_ok e 0 j"
    using append_strings_zero_iff [of "string_ok e 0" "list_append_ok e 0" "[]" minimal_path] a1 zero1
    by simp
  have extra: "\<forall>j<length p. string_ok e 1 j \<and> list_append_ok e 1 j" if "path = Some p" for p
  proof -
    from that a2 have a: "append_strings (string_ok e 1) (list_append_ok e 1) p1 p = (rc2, p2)"
      by simp
    with append_strings_status [of "string_ok e 1" "list_append_ok e 1" p1 p] rc2
    have "rc2 = 0" by auto
    with a append_strings_zero_iff [of "string_ok e 1" "list_append_ok e 1" p1 p]
    show ?thesis by simp
  qed
  from new rest min extra show "PyList_New_ok e" "PySys_SetObject_ok e" "PyImport_AddModule_ok e"
    "filename_ok e" "PyDict_SetItemString_ok e"
    "\<forall>j<length minimal_path. string_ok e 0 j \<and> list_append_ok e 0 j"
    "\<forall>p. path = Some p \<longrightarrow> (\<forall>j<length p. string_ok e 1 j \<and> list_append_ok e 1 j)"
    by simp_all
qed

lemma py_error_simps [simp]:
  "fst (py_error w) = Returned 1"
  "calls (snd (py_error w)) = calls w @ [PyErr_Print]"
  "stderr (snd (py_error w)) = stderr w @ [Traceback]"
  "cur_locale (snd (py_error w)) = cur_locale w"
  "PyImport_FrozenModules (snd (py_error w)) = PyImport_FrozenModules w"
  by (simp_all add: py_error_def)

lemma pyqtdeploy_start_cases:
  assumes "pyqtdeploy_start cfg e argv py_main fn ext path w = (out, w')"
  obtains
    (Registration_failed) "register_tables cfg e ext w = (False, w')" "out = Returned 1"
  | (Conversion_failed) w1 where "register_tables cfg e ext w = (True, w1)"
      "start_interpreter cfg e argv py_main w1 = (Fatal, w')" "out = Returned 1"
  | (Write_out_of_bounds) w1 where "register_tables cfg e ext w = (True, w1)"
      "start_interpreter cfg e argv py_main w1 = (Out_of_bounds, w')" "out = Undefined"
  | (Bootstrap_error) w1 w2 where "register_tables cfg e ext w = (True, w1)"
      "start_interpreter cfg e argv py_main w1 = (Py_error, w2)"
      "out = Returned 1" "w' = snd (py_error w2)"
  | (Run_error) w1 w2 w3 where "register_tables cfg e ext w = (True, w1)"
      "start_interpreter cfg e argv py_main w1 = (Started, w2)"
      "configure_and_run e fn path w2 = (False, w3)"
      "out = Returned 1" "w' = snd (py_error w3)"
  | (Finished) w1 w2 w3 where "register_tables cfg e ext w = (True, w1)"
      "start_interpreter cfg e argv py_main w1 = (Started, w2)"
      "configure_and_run e fn path w2 = (True, w3)"
      "out = Returned 0" "w' = log Py_Finalize w3"
proof -
  obtain ok1 w1 where reg: "register_tables cfg e ext w = (ok1, w1)" by force
  obtain r w2 where st: "start_interpreter cfg e argv py_main w1 = (r, w2)" by force
  obtain ok3 w3 where run: "configure_and_run e fn path w2 = (ok3, w3)" by force
  show thesis
  proof (cases ok1)
    case False
    with assms reg Registration_failed show ?thesis
      by (simp add: pyqtdeploy_start_def)
  next
    case True
    note ok1 = this
    show ?thesis
    proof (cases r)
      case Fatal
      with assms reg st ok1 Conversion_failed [of w1] show ?thesis
        by (simp add: pyqtdeploy_start_def)
    next
      case Py_error
      with assms reg st ok1 Bootstrap_error [of w1 w2] show ?thesis
        by (auto simp: pyqtdeploy_start_def py_error_def)
    next
      case Out_of_bounds
      with assms reg st ok1 Write_out_of_bounds [of w1] show ?thesis
        by (simp add: pyqtdeploy_start_def)
    next
      case Started
      show ?thesis
      proof (cases ok3)
        case True
        with assms reg st run ok1 Started Finished [of w1 w2 w3] show ?thesis
          by (auto simp: pyqtdeploy_start_def)
      next
        case False
        with assms reg st run ok1 Started Run_error [of w1 w2 w3] show ?thesis
          by (auto simp: pyqtdeploy_start_def py_error_def)
      qed
    qed
  qed
qed

subsection \<open>Every run of \<open>pyqtdeploy_start\<close>\<close>

lemma cur_locale_setlocale_environment:
  "cur_locale (setlocale_environment e w) = conversion_locale e w"
  by (simp add: setlocale_environment_def conversion_locale_def split: option.splits)

lemma conversion_locale_cong:
  "cur_locale w1 = cur_locale w \<Longrightarrow> conversion_locale e w1 = conversion_locale e w"
  by (simp add: conversion_locale_def split: option.splits)

lemma registrations_iff:
  "registrations cs \<longleftrightarrow>
     (\<forall>c\<in>set cs. (\<exists>n. c = PyImport_AppendInittab n) \<or> (\<exists>x. c = PyImport_ExtendInittab x))"
proof -
  have "(case c of PyImport_AppendInittab n \<Rightarrow> True | PyImport_ExtendInittab x \<Rightarrow> True | _ \<Rightarrow> False)
          \<longleftrightarrow> (\<exists>n. c = PyImport_AppendInittab n) \<or> (\<exists>x. c = PyImport_ExtendInittab x)" for c
    by (cases c) simp_all
  then show ?thesis
    by (simp add: registrations_def list_all_iff)
qed

lemma start_interpreter_started:
  assumes "start_interpreter cfg e argv py_main w = (Started, w')"
  shows "calls w' = calls w @ init_calls cfg py_main (length argv)
                               (argument_vector cfg e (conversion_locale e w) py_main argv)"
    and "stderr w' = stderr w" and "cur_locale w' = cur_locale w"
    and "py3 cfg \<Longrightarrow> argv \<noteq> []"
    and "py3 cfg \<Longrightarrow> None \<notin> wide_argument cfg e (conversion_locale e w) ` set (tl argv)"
    and "\<not> py3 cfg \<Longrightarrow> \<not> import_frozen_status e (PyImport_FrozenModules w) (BOOTSTRAP_MODULE cfg) < 0"
proof -
  have "calls w' = calls w @ init_calls cfg py_main (length argv)
                               (argument_vector cfg e (conversion_locale e w) py_main argv)
        \<and> stderr w' = stderr w \<and> cur_locale w' = cur_locale w
        \<and> (py3 cfg \<longrightarrow> argv \<noteq> [] \<and> None \<notin> wide_argument cfg e (conversion_locale e w) ` set (tl argv))
        \<and> (\<not> py3 cfg \<longrightarrow> \<not> import_frozen_status e (PyImport_FrozenModules w) (BOOTSTRAP_MODULE cfg) < 0)"
  proof (cases "py3 cfg")
    case True
    from True assms show ?thesis
      by (cases rule: start_interpreter_py3_cases)
         (use True in \<open>simp_all add: init_calls_def argument_vector_def cur_locale_setlocale_environment\<close>)
  next
    case False
    from start_interpreter_py2 [OF False assms] False show ?thesis
      by (simp add: init_calls_def argument_vector_def split: if_splits)
  qed
  then show "calls w' = calls w @ init_calls cfg py_main (length argv)
                               (argument_vector cfg e (conversion_locale e w) py_main argv)"
    and "stderr w' = stderr w" and "cur_locale w' = cur_locale w"
    and "py3 cfg \<Longrightarrow> argv \<noteq> []"
    and "py3 cfg \<Longrightarrow> None \<notin> wide_argument cfg e (conversion_locale e w) ` set (tl argv)"
    and "\<not> py3 cfg \<Longrightarrow> \<not> import_frozen_status e (PyImport_FrozenModules w) (BOOTSTRAP_MODULE cfg) < 0"
    by simp_all
qed

lemma pyqtdeploy_start_runs:
  assumes "pyqtdeploy_start cfg e argv py_main fn ext path w = (out, w')"
  obtains
    (Registration_failed) cs m where
      "out = Returned 1" "calls w' = calls w @ cs" "registrations cs"
      "stderr w' = stderr w @ [Message m]" "cur_locale w' = cur_locale w"
      "AppendInittab_rc e < 0 \<or> ext \<noteq> None \<and> ExtendInittab_rc e < 0"
  | (Conversion_failed) cs m where
      "py3 cfg" "out = Returned 1" "calls w' = calls w @ cs" "registrations cs"
      "stderr w' = stderr w @ [Message m]"
  | (Write_out_of_bounds) cs where
      "py3 cfg" "argv = []" "PyMem_Malloc_ok e 0" "out = Undefined" "calls w' = calls w @ cs"
      "registrations cs" "stderr w' = stderr w" "cur_locale w' = cur_locale w"
  | (Bootstrap_error) cs where
      "\<not> py3 cfg" "out = Returned 1"
      "calls w' = calls w @ cs
         @ init_calls cfg py_main (length argv)
             (argument_vector cfg e (conversion_locale e w) py_main argv)
         @ [PyErr_Print]"
      "registrations cs" "stderr w' = stderr w @ [Traceback]" "cur_locale w' = cur_locale w"
      "import_frozen_status e (modules cfg) (BOOTSTRAP_MODULE cfg) < 0"
  | (Run_error) cs n where
      "out = Returned 1"
      "calls w' = calls w @ cs
         @ init_calls cfg py_main (length argv)
             (argument_vector cfg e (conversion_locale e w) py_main argv)
         @ take n (run_calls fn path) @ [PyErr_Print]"
      "registrations cs" "0 < n" "n \<le> 5"
      "n = 5 \<Longrightarrow> import_frozen_status e (modules cfg) ''__main__'' < 0"
      "stderr w' = stderr w @ [Traceback]" "cur_locale w' = cur_locale w"
      "py3 cfg \<Longrightarrow> argv \<noteq> []"
      "py3 cfg \<Longrightarrow> None \<notin> wide_argument cfg e (conversion_locale e w) ` set (tl argv)"
      "py3 cfg \<Longrightarrow> \<forall>k<length argv. PyMem_Malloc_ok e k"
  | (Finished) cs where
      "out = Returned 0"
      "calls w' = calls w @ cs
         @ init_calls cfg py_main (length argv)
             (argument_vector cfg e (conversion_locale e w) py_main argv)
         @ run_calls fn path @ [Py_Finalize]"
      "registrations cs" "stderr w' = stderr w" "cur_locale w' = cur_locale w"
      "\<not> import_frozen_status e (modules cfg) ''__main__'' < 0"
      "py3 cfg \<Longrightarrow> argv \<noteq> []"
      "py3 cfg \<Longrightarrow> None \<notin> wide_argument cfg e (conversion_locale e w) ` set (tl argv)"
      "py3 cfg \<Longrightarrow> \<forall>k<length argv. PyMem_Malloc_ok e k"
      "\<not> AppendInittab_rc e < 0" "ext = None \<or> \<not> ExtendInittab_rc e < 0"
      "PyList_New_ok e" "PySys_SetObject_ok e" "PyImport_AddModule_ok e" "filename_ok e"
      "PyDict_SetItemString_ok e"
      "\<forall>j<length minimal_path. string_ok e 0 j \<and> list_append_ok e 0 j"
      "\<forall>p. path = Some p \<longrightarrow> (\<forall>j<length p. string_ok e 1 j \<and> list_append_ok e 1 j)"
      "\<not> py3 cfg \<Longrightarrow> \<not> import_frozen_status e (modules cfg) (BOOTSTRAP_MODULE cfg) < 0"
  using assms
proof (cases rule: pyqtdeploy_start_cases)
  case Registration_failed
  from Registration_failed(1) obtain cs ms where
    "calls w' = calls w @ cs" "registrations cs" "stderr w' = stderr w @ ms"
    "False \<longleftrightarrow> ms = []" "cur_locale w' = cur_locale w"
    "False \<longleftrightarrow> \<not> AppendInittab_rc e < 0 \<and> (ext = None \<or> \<not> ExtendInittab_rc e < 0)"
    by (rule register_tables_cases) (auto simp: registrations_iff)
  moreover from Registration_failed(1) have "\<exists>m. stderr w' = stderr w @ [Message m]"
    by (auto simp: register_tables_def Let_def split: if_splits option.splits)
  ultimately show ?thesis
    using Registration_failed(2) that(1) by blast
next
  case (Conversion_failed w1)
  from Conversion_failed(1) obtain cs where
    reg: "calls w1 = calls w @ cs" "registrations cs" "stderr w1 = stderr w"
      "cur_locale w1 = cur_locale w"
    by (rule register_tables_cases) (auto simp: registrations_iff)
  have py3: "py3 cfg"
  proof (rule ccontr)
    assume "\<not> py3 cfg"
    from start_interpreter_py2(4) [OF this Conversion_failed(2)] show False
      by (simp split: if_splits)
  qed
  from py3 Conversion_failed(2) show ?thesis
  proof (cases rule: start_interpreter_py3_cases)
    case (Fatal m)
    show ?thesis
    proof (rule that(2) [of cs m])
      show "py3 cfg" by (rule py3)
      show "out = Returned 1" by (rule Conversion_failed)
      show "calls w' = calls w @ cs" using Fatal reg by simp
      show "registrations cs" by (rule reg)
      show "stderr w' = stderr w @ [Message m]" using Fatal reg by simp
    qed
  qed simp_all
next
  case (Write_out_of_bounds w1)
  from Write_out_of_bounds(1) obtain cs where
    reg: "calls w1 = calls w @ cs" "registrations cs" "stderr w1 = stderr w"
      "cur_locale w1 = cur_locale w"
    by (rule register_tables_cases) (auto simp: registrations_iff)
  have py3: "py3 cfg"
  proof (rule ccontr)
    assume "\<not> py3 cfg"
    from start_interpreter_py2(4) [OF this Write_out_of_bounds(2)] show False
      by (simp split: if_splits)
  qed
  from py3 Write_out_of_bounds(2) show ?thesis
  proof (cases rule: start_interpreter_py3_cases)
    case Out_of_bounds
    show ?thesis
    proof (rule that(3) [of cs])
      show "py3 cfg" by (rule py3)
      show "argv = []" "PyMem_Malloc_ok e 0" by (rule Out_of_bounds)+
      show "out = Undefined" by (rule Write_out_of_bounds)
      show "calls w' = calls w @ cs" using Out_of_bounds reg by simp
      show "registrations cs" by (rule reg)
      show "stderr w' = stderr w" using Out_of_bounds reg by simp
      show "cur_locale w' = cur_locale w" using Out_of_bounds reg by simp
    qed
  qed simp_all
next
  case (Bootstrap_error w1 w2)
  from Bootstrap_error(1) obtain cs where
    reg: "calls w1 = calls w @ cs" "registrations cs" "stderr w1 = stderr w"
      "cur_locale w1 = cur_locale w" "PyImport_FrozenModules w1 = modules cfg"
    by (rule register_tables_cases) (auto simp: registrations_iff)
  have py2: "\<not> py3 cfg"
    using Bootstrap_error(2) by (auto elim: start_interpreter_py3_cases)
  note st = start_interpreter_py2 [OF py2 Bootstrap_error(2)]
  from st(4) have "import_frozen_status e (modules cfg) (BOOTSTRAP_MODULE cfg) < 0"
    by (simp add: reg split: if_splits)
  with that(4) [of cs] py2 reg st Bootstrap_error(3,4) show ?thesis
    by (simp add: init_calls_def argument_vector_def)
next
  case (Run_error w1 w2 w3)
  from Run_error(1) obtain cs where
    reg: "calls w1 = calls w @ cs" "registrations cs" "stderr w1 = stderr w"
      "cur_locale w1 = cur_locale w" "PyImport_FrozenModules w1 = modules cfg"
    by (rule register_tables_cases) (auto simp: registrations_iff)
  note st = start_interpreter_started [OF Run_error(2)]
  have cl: "conversion_locale e w1 = conversion_locale e w"
    using reg(4) by (rule conversion_locale_cong)
  have tbl: "PyImport_FrozenModules w2 = modules cfg"
    using start_interpreter_table [OF Run_error(2)] reg by simp
  from Run_error(3) obtain n where
    run: "calls w3 = calls w2 @ take n (run_calls fn path)" "0 < n" "n \<le> 5"
      "False \<longleftrightarrow> n = 5 \<and> \<not> import_frozen_status e (PyImport_FrozenModules w2) ''__main__'' < 0"
      "stderr w3 = stderr w2" "cur_locale w3 = cur_locale w2"
    by (rule configure_and_run_cases)
  show ?thesis
  proof (rule that(5) [of cs n])
    show "out = Returned 1" by (rule Run_error)
    show "calls w' = calls w @ cs
         @ init_calls cfg py_main (length argv)
             (argument_vector cfg e (conversion_locale e w) py_main argv)
         @ take n (run_calls fn path) @ [PyErr_Print]"
      using Run_error(5) run(1) st(1) reg cl by simp
    show "registrations cs" by (rule reg)
    show "0 < n" "n \<le> 5" by (rule run)+
    show "import_frozen_status e (modules cfg) ''__main__'' < 0" if "n = 5"
      using run(4) that tbl by simp
    show "stderr w' = stderr w @ [Traceback]" using Run_error(5) run st reg by simp
    show "cur_locale w' = cur_locale w" using Run_error(5) run st reg by simp
    show "argv \<noteq> []" if "py3 cfg" using st(4) that .
    show "None \<notin> wide_argument cfg e (conversion_locale e w) ` set (tl argv)" if "py3 cfg"
      using st(5) that reg cl by simp
    show "\<forall>k<length argv. PyMem_Malloc_ok e k" if "py3 cfg"
      using start_interpreter_started_mallocs [OF that Run_error(2)] by simp
  qed
next
  case (Finished w1 w2 w3)
  from Finished(1) obtain cs where
    reg: "calls w1 = calls w @ cs" "registrations cs" "stderr w1 = stderr w"
      "cur_locale w1 = cur_locale w" "PyImport_FrozenModules w1 = modules cfg"
      "\<not> AppendInittab_rc e < 0 \<and> (ext = None \<or> \<not> ExtendInittab_rc e < 0)"
    by (rule register_tables_cases) (auto simp: registrations_iff)
  note st = start_interpreter_started [OF Finished(2)]
  have cl: "conversion_locale e w1 = conversion_locale e w"
    using reg(4) by (rule conversion_locale_cong)
  have tbl: "PyImport_FrozenModules w2 = modules cfg"
    using start_interpreter_table [OF Finished(2)] reg by simp
  from Finished(3) obtain n where
    run: "calls w3 = calls w2 @ take n (run_calls fn path)" "0 < n" "n \<le> 5"
      "True \<longleftrightarrow> n = 5 \<and> \<not> import_frozen_status e (PyImport_FrozenModules w2) ''__main__'' < 0"
      "stderr w3 = stderr w2" "cur_locale w3 = cur_locale w2"
    by (rule configure_and_run_cases)
  from run(4) have n: "n = 5" and ok: "\<not> import_frozen_status e (modules cfg) ''__main__'' < 0"
    using tbl by simp_all
  have full: "take n (run_calls fn path) = run_calls fn path"
    using n by (simp add: run_calls_def)
  show ?thesis
  proof (rule that(6) [of cs])
    show "out = Returned 0" by (rule Finished)
    show "calls w' = calls w @ cs
         @ init_calls cfg py_main (length argv)
             (argument_vector cfg e (conversion_locale e w) py_main argv)
         @ run_calls fn path @ [Py_Finalize]"
      using Finished(5) run(1) full st(1) reg cl by simp
    show "registrations cs" by (rule reg)
    show "stderr w' = stderr w" using Finished(5) run st reg by simp
    show "cur_locale w' = cur_locale w" using Finished(5) run st reg by simp
    show "\<not> import_frozen_status e (modules cfg) ''__main__'' < 0" by (rule ok)
    show "argv \<noteq> []" if "py3 cfg" using st(4) that .
    show "None \<notin> wide_argument cfg e (conversion_locale e w) ` set (tl argv)" if "py3 cfg"
      using st(5) that reg cl by simp
    show "\<forall>k<length argv. PyMem_Malloc_ok e k" if "py3 cfg"
      using start_interpreter_started_mallocs [OF that Finished(2)] by simp
    show "\<not> AppendInittab_rc e < 0" "ext = None \<or> \<not> ExtendInittab_rc e < 0"
      using reg(6) by simp_all
    show "PyList_New_ok e" "PySys_SetObject_ok e" "PyImport_AddModule_ok e" "filename_ok e"
      "PyDict_SetItemString_ok e"
      "\<forall>j<length minimal_path. string_ok e 0 j \<and> list_append_ok e 0 j"
      "\<forall>p. path = Some p \<longrightarrow> (\<forall>j<length p. string_ok e 1 j \<and> list_append_ok e 1 j)"
      by (rule configure_and_run_success [OF Finished(3)])+
    show "\<not> import_frozen_status e (modules cfg) (BOOTSTRAP_MODULE cfg) < 0" if "\<not> py3 cfg"
      using st(6) [OF that] reg by simp
  qed
qed

lemma register_tables_table:
  "register_tables cfg e ext w = (ok, w1) \<Longrightarrow> PyImport_FrozenModules w1 = modules cfg"
  by (erule register_tables_cases)

lemma configure_and_run_table:
  "configure_and_run e fn path w = (ok, w') \<Longrightarrow>
     PyImport_FrozenModules w' = PyImport_FrozenModules w"
  by (erule configure_and_run_cases)

lemma pyqtdeploy_start_table:
  assumes "pyqtdeploy_start cfg e argv py_main fn ext path w = (out, w')"
  shows "PyImport_FrozenModules w' = modules cfg"
  using assms
proof (cases rule: pyqtdeploy_start_cases)
  case Registration_failed
  then show ?thesis by (simp add: register_tables_table)
next
  case (Conversion_failed w1)
  then show ?thesis
    using register_tables_table [of cfg e ext w True w1]
      start_interpreter_table [of cfg e argv py_main w1 Fatal w'] by simp
next
  case (Write_out_of_bounds w1)
  then show ?thesis
    using register_tables_table [of cfg e ext w True w1]
      start_interpreter_table [of cfg e argv py_main w1 Out_of_bounds w'] by simp
next
  case (Bootstrap_error w1 w2)
  then show ?thesis
    using register_tables_table [of cfg e ext w True w1]
      start_interpreter_table [of cfg e argv py_main w1 Py_error w2] by simp
next
  case (Run_error w1 w2 w3)
  then show ?thesis
    using register_tables_table [of cfg e ext w True w1]
      start_interpreter_table [of cfg e argv py_main w1 Started w2]
      configure_and_run_table [of e fn path w2 False w3] by simp
next
  case (Finished w1 w2 w3)
  then show ?thesis
    using register_tables_table [of cfg e ext w True w1]
      start_interpreter_table [of cfg e argv py_main w1 Started w2]
      configure_and_run_table [of e fn path w2 True w3] by simp
qed

subsection \<open>Evaluation and auxiliary facts\<close>

lemmas run_defs = pyqtdeploy_start_def register_tables_def start_interpreter_def
  configure_and_run_def py_error_def initialise_def log_def fprintf_stderr_def
  setlocale_environment_def import_frozen_status_def modules_def BOOTSTRAP_MODULE_def
  minimal_path_def mbstowcs_count_def mbstowcs_def c_content_def strlen_def
  convert_android_def pep383_def char_to_int_def made_def printed_def Let_def

lemmas sample_defs = build_posix_def build_android_arm_def build_android_x86_def
  ascii_decode_def healthy_def at_entry_def prog_def app_prog_def

lemma bootstrap_is_not_main: "BOOTSTRAP_MODULE cfg \<noteq> ''__main__''"
  by (simp add: BOOTSTRAP_MODULE_def)

lemma find_frozen_main:
  "find_frozen (modules cfg) ''__main__'' =
     Some \<lparr>f_name = Some ''__main__'', f_code = Some (frozen_pyqtdeploy_main cfg),
           f_size = length (frozen_pyqtdeploy_main cfg)\<rparr>"
  by (simp add: modules_def BOOTSTRAP_MODULE_def)

lemma import_main_status:
  "import_frozen_status e (modules cfg) ''__main__'' = (if frozen_exec_ok e ''__main__'' then 1 else - 1)"
  by (simp add: import_frozen_status_def find_frozen_main)

lemma not_in_registrations:
  "registrations cs \<Longrightarrow> c \<in> set cs \<Longrightarrow>
     (\<exists>n. c = PyImport_AppendInittab n) \<or> (\<exists>x. c = PyImport_ExtendInittab x)"
  by (simp add: registrations_iff)

lemma made_append [simp]: "calls w' = calls w @ cs \<Longrightarrow> made w w' = cs"
  by (simp add: made_def)

lemma printed_append [simp]: "stderr w' = stderr w @ ms \<Longrightarrow> printed w w' = ms"
  by (simp add: printed_def)

lemma printed_same [simp]: "stderr w' = stderr w \<Longrightarrow> printed w w' = []"
  by (simp add: printed_def)

lemma set_run_calls_take:
  "c \<in> set (take n (run_calls fn path)) \<Longrightarrow> c \<in> set (run_calls fn path)"
  by (rule in_set_takeD)

lemma set_argv_made:
  assumes "pyqtdeploy_start cfg e argv py_main fn ext path w = (out, w')"
    and "PySys_SetArgv n v \<in> set (made w w')"
  shows "n = length argv"
    and "v = argument_vector cfg e (conversion_locale e w) py_main argv"
    and "py3 cfg \<Longrightarrow> argv \<noteq> []"
    and "py3 cfg \<Longrightarrow> None \<notin> wide_argument cfg e (conversion_locale e w) ` set (tl argv)"
proof -
  have "n = length argv \<and> v = argument_vector cfg e (conversion_locale e w) py_main argv
        \<and> (py3 cfg \<longrightarrow> argv \<noteq> [] \<and> None \<notin> wide_argument cfg e (conversion_locale e w) ` set (tl argv))"
    using assms(1)
  proof (cases rule: pyqtdeploy_start_runs)
    case (Registration_failed cs m)
    with assms(2) not_in_registrations [of cs "PySys_SetArgv n v"] show ?thesis by auto
  next
    case (Conversion_failed cs m)
    with assms(2) not_in_registrations [of cs "PySys_SetArgv n v"] show ?thesis by auto
  next
    case (Write_out_of_bounds cs)
    with assms(2) not_in_registrations [of cs "PySys_SetArgv n v"] show ?thesis by auto
  next
    case (Bootstrap_error cs)
    with assms(2) not_in_registrations [of cs "PySys_SetArgv n v"] show ?thesis
      by (auto simp: init_calls_def)
  next
    case (Run_error cs k)
    with assms(2) not_in_registrations [of cs "PySys_SetArgv n v"]
      set_run_calls_take [of "PySys_SetArgv n v" k fn path]
    show ?thesis
      by (auto simp: init_calls_def run_calls_def split: if_splits)
  next
    case (Finished cs)
    with assms(2) not_in_registrations [of cs "PySys_SetArgv n v"] show ?thesis
      by (auto simp: init_calls_def run_calls_def split: if_splits)
  qed
  then show "n = length argv"
    and "v = argument_vector cfg e (conversion_locale e w) py_main argv"
    and "py3 cfg \<Longrightarrow> argv \<noteq> []"
    and "py3 cfg \<Longrightarrow> None \<notin> wide_argument cfg e (conversion_locale e w) ` set (tl argv)"
    by simp_all
qed

lemma argument_vector_zero: "argument_vector cfg e l py_main argv ! 0 = Some py_main"
  by (cases argv) (simp_all add: argument_vector_def)

lemma argument_vector_nth:
  assumes "0 < i" "i < length argv"
  shows "argument_vector cfg e l py_main argv ! i =
           (if py3 cfg then map_option Wide (wide_argument cfg e l (argv ! i))
            else Some (Narrow (argv ! i)))"
proof (cases argv)
  case Nil
  with assms show ?thesis by simp
next
  case (Cons a rest)
  from assms obtain j where j: "i = Suc j" by (cases i) simp_all
  with assms Cons have "j < length rest" by simp
  with Cons j show ?thesis
    by (simp add: argument_vector_def nth_append)
qed

lemma start_interpreter_argv0:
  "start_interpreter cfg e (a # rest) py_main w = start_interpreter cfg e (b # rest) py_main w"
  by (simp add: start_interpreter_def split: prod.splits option.splits)

lemma pyqtdeploy_start_argv0:
  "pyqtdeploy_start cfg e (a # rest) py_main fn ext path w =
   pyqtdeploy_start cfg e (b # rest) py_main fn ext path w"
proof -
  have "start_interpreter cfg e (a # rest) py_main = start_interpreter cfg e (b # rest) py_main"
    by (rule ext) (rule start_interpreter_argv0)
  then show ?thesis
    by (simp only: pyqtdeploy_start_def)
qed

lemma pair_collapse: "f = (fst f, snd f)"
  by simp

subsection \<open>\<open>append_strings\<close> is not atomic\<close>

text \<open>
  Claim C10: \<open>append_strings\<close> appends the values one at a time, in order. It returns 0 or -1;
  it returns 0 exactly when every value was created and appended, and the list is then its
  former content followed by the values; when value \<open>j\<close> is the first that cannot be created
  or appended it returns -1 and the list keeps the \<open>j\<close> values appended before.
\<close>

theorem append_strings_not_atomic:
  "(fst (append_strings c a l vs) = 0 \<or> fst (append_strings c a l vs) = - 1) \<and>
   (fst (append_strings c a l vs) = 0 \<longleftrightarrow> (\<forall>i<length vs. c i \<and> a i)) \<and>
   (fst (append_strings c a l vs) = 0 \<longrightarrow> snd (append_strings c a l vs) = l @ vs) \<and>
   (\<forall>j<length vs. (\<forall>i<j. c i \<and> a i) \<and> \<not> (c j \<and> a j) \<longrightarrow>
      append_strings c a l vs = (- 1, l @ take j vs))"
proof (intro conjI allI impI)
  show "fst (append_strings c a l vs) = 0 \<or> fst (append_strings c a l vs) = - 1"
    by (rule append_strings_status)
  show "fst (append_strings c a l vs) = 0 \<longleftrightarrow> (\<forall>i<length vs. c i \<and> a i)"
    by (rule append_strings_zero_iff)
  show "snd (append_strings c a l vs) = l @ vs" if "fst (append_strings c a l vs) = 0"
    using that append_strings_not_negative [of c a l vs 0 "snd (append_strings c a l vs)"]
    by (cases "append_strings c a l vs") simp
  show "append_strings c a l vs = (- 1, l @ take j vs)"
    if "j < length vs" "(\<forall>i<j. c i \<and> a i) \<and> \<not> (c j \<and> a j)" for j
    using that by (intro append_strings_first_failure) simp_all
qed

theorem append_strings_not_atomic_witness:
  "append_strings (\<lambda>j. True) (\<lambda>j. j \<noteq> 1) [''x''] [''a'', ''b'', ''c''] = (- 1, [''x'', ''a'']) \<and>
   fst (append_strings (\<lambda>j. True) (\<lambda>j. True) [''x''] [''a'', ''b'']) = 0 \<and>
   snd (append_strings (\<lambda>j. True) (\<lambda>j. True) [''x''] [''a'', ''b'']) = [''x'', ''a'', ''b'']"
proof -
  note fail = append_strings_not_atomic
    [of "\<lambda>j. True" "\<lambda>j. j \<noteq> 1" "[''x'']" "[''a'', ''b'', ''c'']"]
  note ok = append_strings_not_atomic [of "\<lambda>j. True" "\<lambda>j. True" "[''x'']" "[''a'', ''b'']"]
  from fail have
    "append_strings (\<lambda>j. True) (\<lambda>j. j \<noteq> 1) [''x''] [''a'', ''b'', ''c'']
       = (- 1, [''x''] @ take 1 [''a'', ''b'', ''c''])"
    by simp
  moreover from ok have "fst (append_strings (\<lambda>j. True) (\<lambda>j. True) [''x''] [''a'', ''b'']) = 0"
    by simp
  moreover from ok this
  have "snd (append_strings (\<lambda>j. True) (\<lambda>j. True) [''x''] [''a'', ''b'']) = [''x''] @ [''a'', ''b'']"
    by blast
  ultimately show ?thesis by simp
qed

subsection \<open>The buffer of a converted argument\<close>

text \<open>
  Claim C9: on the path without a locale the buffer of an argument of \<open>L\<close> bytes has \<open>L + 1\<close>
  units, of which the loop writes the first \<open>L\<close>; the last unit is never written, so the
  string handed to the runtime is not terminated by the code. On the locale-aware path
  \<open>mbstowcs\<close> writes the terminating zero.
\<close>

theorem android_buffer_not_terminated:
  assumes "pyqtdeploy_start cfg e argv py_main fn ext path w = (out, w')"
    and "PySys_SetArgv n v \<in> set (made w w')"
    and "py3 cfg" and "0 < i" and "i < length argv"
  shows "(android cfg \<longrightarrow>
            v ! i = Some (Wide (map (Some \<circ> pep383 (char_signed cfg)) (c_content (argv ! i)) @ [None]))
            \<and> length (convert_android (char_signed cfg) (argv ! i)) = strlen (argv ! i) + 1) \<and>
         (\<not> android cfg \<longrightarrow>
            (\<exists>ws. mb_decode e (conversion_locale e w) (c_content (argv ! i)) = Some ws \<and>
                  v ! i = Some (Wide (map Some ws @ [Some 0]))))"
proof -
  note facts = set_argv_made [OF assms(1,2)]
  have nth: "v ! i = map_option Wide (wide_argument cfg e (conversion_locale e w) (argv ! i))"
    using facts(2) argument_vector_nth [OF assms(4,5)] assms(3) by simp
  have "argv ! i \<in> set (tl argv)"
    using assms(4,5) by (cases argv) (auto simp: nth_Cons split: nat.splits)
  with facts(4) [OF assms(3)]
  have some: "wide_argument cfg e (conversion_locale e w) (argv ! i) \<noteq> None"
    by (metis image_eqI)
  show ?thesis
  proof (intro conjI impI)
    assume "android cfg"
    then show "v ! i = Some (Wide (map (Some \<circ> pep383 (char_signed cfg)) (c_content (argv ! i)) @ [None]))"
      using nth by (simp add: wide_argument_def convert_android_eq)
    show "length (convert_android (char_signed cfg) (argv ! i)) = strlen (argv ! i) + 1"
      by (simp add: convert_android_eq strlen_def)
  next
    assume "\<not> android cfg"
    with some nth show "\<exists>ws. mb_decode e (conversion_locale e w) (c_content (argv ! i)) = Some ws \<and>
                  v ! i = Some (Wide (map Some ws @ [Some 0]))"
      by (auto simp: wide_argument_def)
  qed
qed

theorem android_buffer_not_terminated_witness:
  "PySys_SetArgv 2 [Some app_prog, Some (Wide [Some 0x61, Some 0xDC80, None])]
     \<in> set (made at_entry
          (snd (pyqtdeploy_start build_android_arm healthy [prog, [0x61, 0x80]] app_prog
                  ''main.py'' None None at_entry))) \<and>
   [Some app_prog, Some (Wide [Some 0x61, Some 0xDC80, None])] ! 1 =
     Some (Wide (map (Some \<circ> pep383 False) (c_content [0x61, 0x80]) @ [None])) \<and>
   length (convert_android False [0x61, 0x80]) = strlen [0x61, 0x80] + 1"
proof -
  let ?run = "pyqtdeploy_start build_android_arm healthy [prog, [0x61, 0x80]] app_prog
                ''main.py'' None None at_entry"
  have mem: "PySys_SetArgv 2 [Some app_prog, Some (Wide [Some 0x61, Some 0xDC80, None])]
               \<in> set (made at_entry (snd ?run))"
    by (simp add: run_defs sample_defs)
  have "py3 build_android_arm" "android build_android_arm" "\<not> char_signed build_android_arm"
    by (simp_all add: build_android_arm_def)
  with android_buffer_not_terminated [OF pair_collapse [of ?run] mem, of 1] mem
  show ?thesis by simp
qed

subsection \<open>The argument vector\<close>

text \<open>
  Claim C3: for an argument vector of length \<open>N \<ge> 1\<close>, when the conversion completes, the vector
  handed to the runtime holds exactly \<open>N\<close> strings in the order of the input: slot 0 is
  \<open>py_main\<close>, slot \<open>i > 0\<close> is the conversion of \<open>argv[i]\<close>; and \<open>argv[0]\<close> is never read, so the
  function does the same whatever stands there.
\<close>

theorem argument_vector_registered:
  assumes "pyqtdeploy_start cfg e argv py_main fn ext path w = (out, w')"
    and "PySys_SetArgv n v \<in> set (made w w')"
    and "argv \<noteq> []"
  shows "n = length argv \<and> length (take n v) = length argv \<and> v ! 0 = Some py_main \<and>
         (\<forall>i. 0 < i \<and> i < length argv \<longrightarrow>
            v ! i \<noteq> None \<and>
            v ! i = (if py3 cfg
                     then map_option Wide (wide_argument cfg e (conversion_locale e w) (argv ! i))
                     else Some (Narrow (argv ! i)))) \<and>
         pyqtdeploy_start cfg e (a0 # tl argv) py_main fn ext path w = (out, w')"
proof -
  note facts = set_argv_made [OF assms(1,2)]
  have len: "length (take n v) = length argv"
    using facts(1,2) assms(3) by (cases argv) (simp_all add: argument_vector_def)
  have nth: "v ! i \<noteq> None \<and>
             v ! i = (if py3 cfg
                      then map_option Wide (wide_argument cfg e (conversion_locale e w) (argv ! i))
                      else Some (Narrow (argv ! i)))"
    if "0 < i \<and> i < length argv" for i
  proof -
    from that have i: "0 < i" "i < length argv" by simp_all
    have mem: "argv ! i \<in> set (tl argv)"
      using i by (cases argv) (auto simp: nth_Cons split: nat.splits)
    have "wide_argument cfg e (conversion_locale e w) (argv ! i) \<noteq> None" if "py3 cfg"
      using facts(4) [OF that] mem by (metis image_eqI)
    then show ?thesis
      using facts(2) argument_vector_nth [OF i] by auto
  qed
  have same: "pyqtdeploy_start cfg e (a0 # tl argv) py_main fn ext path w = (out, w')"
    using assms(1,3) pyqtdeploy_start_argv0 [of cfg e a0 "tl argv" py_main fn ext path w "hd argv"]
    by simp
  have zero: "v ! 0 = Some py_main"
    using facts(2) by (simp add: argument_vector_zero)
  from facts(1) len zero nth same show ?thesis
    by blast
qed

theorem argument_vector_registered_witness:
  "PySys_SetArgv 2 [Some app_prog, Some (Wide [Some 0x61, Some 0])]
     \<in> set (made at_entry
          (snd (pyqtdeploy_start build_posix healthy [prog, [0x61]] app_prog ''main.py'' None None
                  at_entry))) \<and>
   2 = length [prog, [0x61 :: byte]] \<and>
   [Some app_prog, Some (Wide [Some 0x61, Some 0])] ! 0 = Some app_prog \<and>
   pyqtdeploy_start build_posix healthy [[], [0x61]] app_prog ''main.py'' None None at_entry =
   pyqtdeploy_start build_posix healthy [prog, [0x61]] app_prog ''main.py'' None None at_entry"
proof -
  let ?run = "pyqtdeploy_start build_posix healthy [prog, [0x61]] app_prog ''main.py'' None None
                at_entry"
  have mem: "PySys_SetArgv 2 [Some app_prog, Some (Wide [Some 0x61, Some 0])]
               \<in> set (made at_entry (snd ?run))"
    by (simp add: run_defs sample_defs)
  from argument_vector_registered [OF pair_collapse [of ?run] mem, of "[]"] mem
  show ?thesis by simp
qed

subsection \<open>The module search path\<close>

text \<open>
  Claim C4: whenever \<open>pyqtdeploy_start\<close> installs the module search path, the list installed is
  the three fixed fragments \<open>":/"\<close>, \<open>":/stdlib"\<close>, \<open>":/site-packages"\<close> in that order, followed
  by the caller's fragments (when the caller's list is not \<open>NULL\<close>) in their order, nothing
  removed and nothing reordered; a run that returns 0 has installed it. The witness is the
  run with the caller's list \<open>["/extra/one", "/extra/two"]\<close>.
\<close>

theorem search_path_installed:
  assumes "pyqtdeploy_start cfg e argv py_main fn ext path w = (out, w')"
  shows "(\<forall>nm l. PySys_SetObject nm l \<in> set (made w w') \<longrightarrow>
            nm = ''path'' \<and>
            l = ['':/'', '':/stdlib'', '':/site-packages'']
                  @ (case path of None \<Rightarrow> [] | Some p \<Rightarrow> p)) \<and>
         (out = Returned 0 \<longrightarrow>
            PySys_SetObject ''path''
              (['':/'', '':/stdlib'', '':/site-packages'']
                 @ (case path of None \<Rightarrow> [] | Some p \<Rightarrow> p)) \<in> set (made w w'))"
  using assms
proof (cases rule: pyqtdeploy_start_runs)
  case (Registration_failed cs m)
  then show ?thesis
    by (auto dest: not_in_registrations)
next
  case (Conversion_failed cs m)
  then show ?thesis
    by (auto dest: not_in_registrations)
next
  case (Write_out_of_bounds cs)
  then show ?thesis
    by (auto dest: not_in_registrations)
next
  case (Bootstrap_error cs)
  then show ?thesis
    by (auto simp: init_calls_def dest: not_in_registrations)
next
  case (Run_error cs k)
  have "nm = ''path'' \<and> l = ['':/'', '':/stdlib'', '':/site-packages'']
                  @ (case path of None \<Rightarrow> [] | Some p \<Rightarrow> p)"
    if "PySys_SetObject nm l \<in> set (take k (run_calls fn path))" for nm l
    using set_run_calls_take [OF that] by (auto simp: run_calls_def minimal_path_def)
  with Run_error show ?thesis
    by (auto simp: init_calls_def dest: not_in_registrations)
next
  case (Finished cs)
  then show ?thesis
    by (auto simp: init_calls_def run_calls_def minimal_path_def dest: not_in_registrations)
qed

theorem search_path_installed_witness:
  "fst (pyqtdeploy_start build_posix healthy [prog] app_prog ''main.py'' None
          (Some [''/extra/one'', ''/extra/two'']) at_entry) = Returned 0 \<and>
   PySys_SetObject ''path''
     ['':/'', '':/stdlib'', '':/site-packages'', ''/extra/one'', ''/extra/two'']
     \<in> set (made at_entry
          (snd (pyqtdeploy_start build_posix healthy [prog] app_prog ''main.py'' None
                  (Some [''/extra/one'', ''/extra/two'']) at_entry)))"
proof -
  let ?run = "pyqtdeploy_start build_posix healthy [prog] app_prog ''main.py'' None
                (Some [''/extra/one'', ''/extra/two'']) at_entry"
  have out: "fst ?run = Returned 0"
    by (simp add: run_defs sample_defs)
  from search_path_installed [OF pair_collapse [of ?run]] out show ?thesis
    by simp
qed

subsection \<open>The table of frozen modules\<close>

text \<open>
  Claim C8: the table that \<open>pyqtdeploy_start\<close> installs in \<open>PyImport_FrozenModules\<close> holds
  exactly two named entries, the bootstrap module and \<open>__main__\<close>, with different names,
  followed by the entry with the \<open>NULL\<close> name; and after the installation nothing in the
  function assigns the variable or an entry: the table is in place at every return, and
  each later part of the function leaves the variable as it finds it.
\<close>

theorem frozen_table_installed:
  "PyImport_FrozenModules (snd (pyqtdeploy_start cfg e argv py_main fn ext path w)) = modules cfg \<and>
   map f_name (modules cfg) = [Some (BOOTSTRAP_MODULE cfg), Some ''__main__'', None] \<and>
   distinct (map f_name (modules cfg)) \<and>
   map f_code (modules cfg) =
     [Some (frozen_pyqtdeploy_bootstrap cfg), Some (frozen_pyqtdeploy_main cfg), None] \<and>
   PyImport_FrozenModules (snd (start_interpreter cfg e argv py_main w)) = PyImport_FrozenModules w \<and>
   PyImport_FrozenModules (snd (configure_and_run e fn path w)) = PyImport_FrozenModules w \<and>
   PyImport_FrozenModules (snd (py_error w)) = PyImport_FrozenModules w \<and>
   PyImport_FrozenModules (log Py_Finalize w) = PyImport_FrozenModules w"
proof (intro conjI)
  show "PyImport_FrozenModules (snd (pyqtdeploy_start cfg e argv py_main fn ext path w)) = modules cfg"
    by (rule pyqtdeploy_start_table [OF pair_collapse])
  show "map f_name (modules cfg) = [Some (BOOTSTRAP_MODULE cfg), Some ''__main__'', None]"
    by (simp add: modules_def)
  show "distinct (map f_name (modules cfg))"
    by (simp add: modules_def bootstrap_is_not_main)
  show "map f_code (modules cfg) =
     [Some (frozen_pyqtdeploy_bootstrap cfg), Some (frozen_pyqtdeploy_main cfg), None]"
    by (simp add: modules_def)
  show "PyImport_FrozenModules (snd (start_interpreter cfg e argv py_main w)) = PyImport_FrozenModules w"
    by (rule start_interpreter_table [OF pair_collapse])
  show "PyImport_FrozenModules (snd (configure_and_run e fn path w)) = PyImport_FrozenModules w"
    by (rule configure_and_run_table [OF pair_collapse])
  show "PyImport_FrozenModules (snd (py_error w)) = PyImport_FrozenModules w"
    by simp
  show "PyImport_FrozenModules (log Py_Finalize w) = PyImport_FrozenModules w"
    by simp
qed

subsection \<open>The escape of a byte where plain \<open>char\<close> is signed\<close>

text \<open>
  Claim C1: on the path without a locale every byte in \<open>[0x80, 0xFF]\<close> is mapped to the code
  point \<open>0xDC00 + byte\<close>, so that the reverse mapping recovers the byte.

  Where plain \<open>char\<close> is signed (the x86 ABIs) the code does not do that: \<open>ch\<close> is negative for
  such a byte, the test \<open>ch <= 0x7f\<close> holds, and the unit stored is the sign-extended \<open>ch\<close>. For
  the argument \<open>"\x80"\<close> the vector registered with the runtime holds \<open>0xFFFFFF80\<close>, not
  \<open>0xDC80\<close>, and the reverse mapping leaves that unit as it is.
\<close>

theorem signed_char_high_byte_not_escaped:
  "pep383 True 0x80 = 0xFFFFFF80 \<and>
   pep383 True 0x80 \<noteq> 0xDC00 + 0x80 \<and>
   unescape (pep383 True 0x80) \<noteq> 0x80 \<and>
   PySys_SetArgv 2 [Some app_prog, Some (Wide [Some 0xFFFFFF80, None])]
     \<in> set (made at_entry
          (snd (pyqtdeploy_start build_android_x86 healthy [prog, [0x80]] app_prog ''main.py''
                  None None at_entry)))"
  by (simp add: run_defs sample_defs unescape_def)

text \<open>
  Where plain \<open>char\<close> is unsigned (the ARM ABIs) the escape is the one the claim describes,
  and the reverse mapping recovers every string.
\<close>

lemma pep383_unsigned:
  "uint (pep383 False b) = (if uint b \<le> 0x7f then uint b else 0xdc00 + uint b)"
  by (rule uint_pep383_unsigned)

lemma convert_android_unsigned_round_trip:
  "map (map_option unescape) (butlast (convert_android False arg)) = map (Some \<circ> ucast) (c_content arg)"
  by (simp add: convert_android_eq unescape_pep383_unsigned)

subsection \<open>The locale on the failure returns of the conversion loop\<close>

text \<open>
  Claim C2: on the locale-aware path the locale saved before the first conversion is restored
  on every exit path of \<open>pyqtdeploy_start\<close>, the failure returns inside the conversion loop
  included.

  The code restores the locale after the loop only (line 167); the three \<open>return 1\<close> inside
  the loop leave the environment's locale in place. Entered in locale \<open>C\<close> with the
  environment's locale \<open>en_US.UTF-8\<close>, the function returns 1 in locale \<open>en_US.UTF-8\<close> both
  when argument 1 cannot be decoded and when the allocation for argument 1 fails.
\<close>

theorem locale_not_restored_on_failure:
  "cur_locale at_entry = ''C'' \<and>
   fst (pyqtdeploy_start build_posix healthy [prog, [0xff]] app_prog ''main.py'' None None at_entry)
     = Returned 1 \<and>
   cur_locale
     (snd (pyqtdeploy_start build_posix healthy [prog, [0xff]] app_prog ''main.py'' None None
             at_entry)) = ''en_US.UTF-8'' \<and>
   fst (pyqtdeploy_start build_posix (healthy\<lparr>PyMem_Malloc_ok := (\<lambda>i. i \<noteq> 1)\<rparr>) [prog, [0x61]]
          app_prog ''main.py'' None None at_entry) = Returned 1 \<and>
   cur_locale
     (snd (pyqtdeploy_start build_posix (healthy\<lparr>PyMem_Malloc_ok := (\<lambda>i. i \<noteq> 1)\<rparr>) [prog, [0x61]]
             app_prog ''main.py'' None None at_entry)) = ''en_US.UTF-8''"
  by (simp add: run_defs sample_defs)

text \<open>On every path that leaves the loop normally the locale at entry is back.\<close>

lemma locale_restored_after_conversion:
  assumes "pyqtdeploy_start cfg e argv py_main fn ext path w = (out, w')"
    and "Py_Initialize \<in> set (made w w')"
  shows "cur_locale w' = cur_locale w"
  using assms(1)
proof (cases rule: pyqtdeploy_start_runs)
  case (Registration_failed cs m)
  then show ?thesis by simp
next
  case (Conversion_failed cs m)
  with assms(2) show ?thesis by (auto dest: not_in_registrations)
next
  case (Write_out_of_bounds cs)
  then show ?thesis by simp
next
  case (Bootstrap_error cs)
  then show ?thesis by simp
next
  case (Run_error cs n)
  then show ?thesis by simp
next
  case (Finished cs)
  then show ?thesis by simp
qed

subsection \<open>The import of \<open>__main__\<close>\<close>

text \<open>
  Claim C5: \<open>pyqtdeploy_start\<close> never returns 0 without having attempted the import of the
  \<open>__main__\<close> entry of the table of frozen modules; and when the import is attempted and the
  entry is absent or the runtime fails to import it, the function returns 1 and the last
  thing it does is to call the runtime's \<open>PyErr_Print\<close>.

  The table is the one compiled into the function, so the entry is never absent
  (\<open>find_frozen_main\<close>): of the two conditions only the failed import occurs. The status 0
  that the runtime gives for a name it does not find is not below 0, which is all the code
  tests.
\<close>

theorem main_module_import:
  assumes "pyqtdeploy_start cfg e argv py_main fn ext path w = (out, w')"
  shows "(out = Returned 0 \<longrightarrow> PyImport_ImportFrozenModule ''__main__'' \<in> set (made w w')) \<and>
         (PyImport_ImportFrozenModule ''__main__'' \<in> set (made w w') \<and>
          (find_frozen (PyImport_FrozenModules w') ''__main__'' = None \<or>
           \<not> frozen_exec_ok e ''__main__'') \<longrightarrow>
            out = Returned 1 \<and> last (made w w') = PyErr_Print \<and> last (printed w w') = Traceback) \<and>
         (find_frozen (PyImport_FrozenModules w') ''__main__'' = None \<or>
          \<not> frozen_exec_ok e ''__main__'' \<longrightarrow> out \<noteq> Returned 0)"
proof -
  have tbl: "find_frozen (PyImport_FrozenModules w') ''__main__'' \<noteq> None"
    using pyqtdeploy_start_table [OF assms] by (simp add: find_frozen_main)
  have no_main: "PyImport_ImportFrozenModule ''__main__''
                   \<notin> set (init_calls cfg py_main n v)" for n v
    using bootstrap_is_not_main [of cfg] by (auto simp: init_calls_def)
  from assms show ?thesis
  proof (cases rule: pyqtdeploy_start_runs)
    case (Registration_failed cs m)
    then show ?thesis
      by (auto dest: not_in_registrations)
  next
    case (Conversion_failed cs m)
    then show ?thesis
      by (auto dest: not_in_registrations)
  next
    case (Write_out_of_bounds cs)
    then show ?thesis
      by (auto dest: not_in_registrations)
  next
    case (Bootstrap_error cs)
    with no_main show ?thesis
      by (auto dest: not_in_registrations)
  next
    case (Run_error cs n)
    with no_main show ?thesis
      by (auto dest: not_in_registrations)
  next
    case (Finished cs)
    with tbl show ?thesis
      by (auto simp: run_calls_def import_main_status split: if_splits)
  qed
qed

theorem main_module_import_witness:
  "PyImport_ImportFrozenModule ''__main__''
     \<in> set (made at_entry
          (snd (pyqtdeploy_start build_posix (healthy\<lparr>frozen_exec_ok := (\<lambda>n. n \<noteq> ''__main__'')\<rparr>)
                  [prog] app_prog ''main.py'' None None at_entry))) \<and>
   fst (pyqtdeploy_start build_posix (healthy\<lparr>frozen_exec_ok := (\<lambda>n. n \<noteq> ''__main__'')\<rparr>)
          [prog] app_prog ''main.py'' None None at_entry) = Returned 1 \<and>
   last (made at_entry
          (snd (pyqtdeploy_start build_posix (healthy\<lparr>frozen_exec_ok := (\<lambda>n. n \<noteq> ''__main__'')\<rparr>)
                  [prog] app_prog ''main.py'' None None at_entry))) = PyErr_Print \<and>
   PyImport_ImportFrozenModule ''__main__''
     \<in> set (made at_entry
          (snd (pyqtdeploy_start build_posix healthy [prog] app_prog ''main.py'' None None at_entry)))"
proof -
  let ?e = "healthy\<lparr>frozen_exec_ok := (\<lambda>n. n \<noteq> ''__main__'')\<rparr>"
  let ?bad = "pyqtdeploy_start build_posix ?e [prog] app_prog ''main.py'' None None at_entry"
  let ?good = "pyqtdeploy_start build_posix healthy [prog] app_prog ''main.py'' None None at_entry"
  have attempted: "PyImport_ImportFrozenModule ''__main__'' \<in> set (made at_entry (snd ?bad))"
    by (simp add: run_defs sample_defs)
  have fails: "\<not> frozen_exec_ok ?e ''__main__''"
    by (simp add: healthy_def)
  have good: "fst ?good = Returned 0"
    by (simp add: run_defs sample_defs)
  from main_module_import [OF pair_collapse [of ?bad]] attempted fails
  have "fst ?bad = Returned 1 \<and> last (made at_entry (snd ?bad)) = PyErr_Print"
    by blast
  moreover from main_module_import [OF pair_collapse [of ?good]] good
  have "PyImport_ImportFrozenModule ''__main__'' \<in> set (made at_entry (snd ?good))"
    by blast
  ultimately show ?thesis
    using attempted by blast
qed

subsection \<open>A failed allocation for an argument\<close>

text \<open>
  Claim C6: when the allocation for argument \<open>k > 0\<close> fails (Python 3), \<open>pyqtdeploy_start\<close>
  returns 1 before the runtime is initialised: the only calls it has made are registrations
  in the table of built-in modules; \<open>Py_SetProgramName\<close>, \<open>Py_Initialize\<close> and \<open>PySys_SetArgv\<close>
  are not among them, so no argument vector, partial or not, is registered; and one line has
  been written to the error stream.
\<close>

theorem allocation_failure_before_initialisation:
  assumes "pyqtdeploy_start cfg e argv py_main fn ext path w = (out, w')"
    and "py3 cfg" and "0 < k" and "k < length argv" and "\<not> PyMem_Malloc_ok e k"
  shows "out = Returned 1 \<and> registrations (made w w') \<and>
         Py_Initialize \<notin> set (made w w') \<and>
         (\<forall>p. Py_SetProgramName p \<notin> set (made w w')) \<and>
         (\<forall>n v. PySys_SetArgv n v \<notin> set (made w w')) \<and>
         (\<exists>m. printed w w' = [Message m])"
  using assms(1)
proof (cases rule: pyqtdeploy_start_runs)
  case (Registration_failed cs m)
  then show ?thesis
    by (auto dest: not_in_registrations)
next
  case (Conversion_failed cs m)
  then show ?thesis
    by (auto dest: not_in_registrations)
next
  case (Write_out_of_bounds cs)
  with assms(4) show ?thesis by simp
next
  case (Bootstrap_error cs)
  with assms(2) show ?thesis by simp
next
  case (Run_error cs n)
  from Run_error(11) [OF assms(2)] assms(4,5) show ?thesis by blast
next
  case (Finished cs)
  from Finished(9) [OF assms(2)] assms(4,5) show ?thesis by blast
qed

theorem allocation_failure_before_initialisation_witness:
  "fst (pyqtdeploy_start build_posix (healthy\<lparr>PyMem_Malloc_ok := (\<lambda>i. i \<noteq> 2)\<rparr>)
          [prog, [0x61], [0x62]] app_prog ''main.py'' None None at_entry) = Returned 1 \<and>
   made at_entry
     (snd (pyqtdeploy_start build_posix (healthy\<lparr>PyMem_Malloc_ok := (\<lambda>i. i \<noteq> 2)\<rparr>)
             [prog, [0x61], [0x62]] app_prog ''main.py'' None None at_entry))
     = [PyImport_AppendInittab ''pyqtdeploy''] \<and>
   Py_Initialize \<notin> set (made at_entry
     (snd (pyqtdeploy_start build_posix (healthy\<lparr>PyMem_Malloc_ok := (\<lambda>i. i \<noteq> 2)\<rparr>)
             [prog, [0x61], [0x62]] app_prog ''main.py'' None None at_entry)))"
proof -
  let ?e = "healthy\<lparr>PyMem_Malloc_ok := (\<lambda>i. i \<noteq> 2)\<rparr>"
  let ?run = "pyqtdeploy_start build_posix ?e [prog, [0x61], [0x62]] app_prog ''main.py'' None None
                at_entry"
  have calls: "made at_entry (snd ?run) = [PyImport_AppendInittab ''pyqtdeploy'']"
    by (simp add: run_defs sample_defs)
  have "py3 build_posix" "(0::nat) < 2" "2 < length [prog, [0x61], [0x62 :: byte]]"
    "\<not> PyMem_Malloc_ok ?e 2"
    by (simp_all add: build_posix_def healthy_def)
  from allocation_failure_before_initialisation [OF pair_collapse [of ?run] this] calls
  show ?thesis by simp
qed

subsection \<open>A run in which nothing fails\<close>

lemma convert_arguments_succeeds:
  assumes "\<forall>j<length rest. PyMem_Malloc_ok e (i + j)"
    and "None \<notin> wide_argument cfg e (cur_locale w) ` set rest"
  shows "fst (convert_arguments cfg e i rest v w) \<noteq> None"
  using assms
proof (induction rest arbitrary: i v)
  case Nil
  then show ?case by simp
next
  case (Cons arg rest)
  from Cons.prems(1) have ok: "PyMem_Malloc_ok e i" by auto
  from Cons.prems(1) have oks: "\<forall>j<length rest. PyMem_Malloc_ok e (Suc i + j)" by auto
  from Cons.prems(2) have rest: "None \<notin> wide_argument cfg e (cur_locale w) ` set rest"
    and arg: "wide_argument cfg e (cur_locale w) arg \<noteq> None"
    by auto
  note IH = Cons.IH [OF oks rest]
  show ?case
  proof (cases "android cfg")
    case True
    with ok IH show ?thesis by simp
  next
    case False
    with arg obtain ws where "mb_decode e (cur_locale w) (c_content arg) = Some ws"
      by (auto simp: wide_argument_def)
    with False ok IH show ?thesis
      by (simp add: mbstowcs_count_def mbstowcs_def)
  qed
qed

lemma start_interpreter_succeeds:
  assumes "argv \<noteq> [] \<or> \<not> py3 cfg"
    and "py3 cfg \<Longrightarrow> \<forall>k<length argv. PyMem_Malloc_ok e k"
    and "py3 cfg \<Longrightarrow> None \<notin> wide_argument cfg e (conversion_locale e w) ` set (tl argv)"
    and "\<not> py3 cfg \<Longrightarrow> \<not> import_frozen_status e (PyImport_FrozenModules w) (BOOTSTRAP_MODULE cfg) < 0"
  shows "fst (start_interpreter cfg e argv py_main w) = Started"
proof (cases "py3 cfg")
  case False
  from start_interpreter_py2(4) [OF False pair_collapse] assms(4) [OF False] show ?thesis
    by simp
next
  case True
  with assms(1) have ne: "argv \<noteq> []" by simp
  let ?w1 = "if android cfg then w else setlocale_environment e w"
  let ?v0 = "(replicate (length argv) None)[0 := Some py_main]"
  have m0: "PyMem_Malloc_ok e 0" using assms(2) [OF True] ne by auto
  have ms: "\<forall>j<length (tl argv). PyMem_Malloc_ok e (1 + j)"
    using assms(2) [OF True] by auto
  have "wide_argument cfg e (cur_locale ?w1) = wide_argument cfg e (conversion_locale e w)"
    by (auto simp: wide_argument_def fun_eq_iff cur_locale_setlocale_environment)
  with assms(3) [OF True]
  have "None \<notin> wide_argument cfg e (cur_locale ?w1) ` set (tl argv)" by simp
  with ms have "fst (convert_arguments cfg e 1 (tl argv) ?v0 ?w1) \<noteq> None"
    by (rule convert_arguments_succeeds)
  then obtain v w2 where "convert_arguments cfg e 1 (tl argv) ?v0 ?w1 = (Some v, w2)"
    by (cases "convert_arguments cfg e 1 (tl argv) ?v0 ?w1") auto
  with True ne m0 show ?thesis
    by (simp add: start_interpreter_def Let_def)
qed

lemma configure_and_run_succeeds:
  assumes "PyList_New_ok e" "PySys_SetObject_ok e" "PyImport_AddModule_ok e" "filename_ok e"
    "PyDict_SetItemString_ok e"
    "\<forall>j<length minimal_path. string_ok e 0 j \<and> list_append_ok e 0 j"
    "\<forall>p. path = Some p \<longrightarrow> (\<forall>j<length p. string_ok e 1 j \<and> list_append_ok e 1 j)"
    "\<not> import_frozen_status e (PyImport_FrozenModules w) ''__main__'' < 0"
  shows "fst (configure_and_run e fn path w) = True"
proof -
  have a1: "append_strings (string_ok e 0) (list_append_ok e 0) [] minimal_path = (0, minimal_path)"
    using append_strings_all_ok [OF assms(6), of "[]"] by simp
  have a2: "(case path of None \<Rightarrow> (0, minimal_path)
             | Some p \<Rightarrow> append_strings (string_ok e 1) (list_append_ok e 1) minimal_path p)
            = (0, minimal_path @ (case path of None \<Rightarrow> [] | Some p \<Rightarrow> p))"
    using assms(7) by (cases path) (simp_all add: append_strings_all_ok)
  from assms(1-5,8) a1 a2 show ?thesis
    by (simp add: configure_and_run_def Let_def)
qed

lemma register_tables_succeeds:
  assumes "\<not> AppendInittab_rc e < 0" "ext = None \<or> \<not> ExtendInittab_rc e < 0"
  shows "fst (register_tables cfg e ext w) = True"
  using assms register_tables_cases [OF pair_collapse [of "register_tables cfg e ext w"]]
  by metis

lemma clean_run_returns_zero:
  assumes "argv \<noteq> [] \<or> \<not> py3 cfg"
    and "\<not> AppendInittab_rc e < 0" "ext = None \<or> \<not> ExtendInittab_rc e < 0"
    and "py3 cfg \<Longrightarrow> \<forall>k<length argv. PyMem_Malloc_ok e k"
    and "py3 cfg \<Longrightarrow> None \<notin> wide_argument cfg e (conversion_locale e w) ` set (tl argv)"
    and "\<not> py3 cfg \<Longrightarrow> \<not> import_frozen_status e (modules cfg) (BOOTSTRAP_MODULE cfg) < 0"
    and "PyList_New_ok e" "PySys_SetObject_ok e" "PyImport_AddModule_ok e" "filename_ok e"
    "PyDict_SetItemString_ok e"
    "\<forall>j<length minimal_path. string_ok e 0 j \<and> list_append_ok e 0 j"
    "\<forall>p. path = Some p \<longrightarrow> (\<forall>j<length p. string_ok e 1 j \<and> list_append_ok e 1 j)"
    "frozen_exec_ok e ''__main__''"
  shows "fst (pyqtdeploy_start cfg e argv py_main fn ext path w) = Returned 0"
proof -
  obtain w1 where reg: "register_tables cfg e ext w = (True, w1)"
    using register_tables_succeeds [OF assms(2,3), of cfg w]
    by (cases "register_tables cfg e ext w") auto
  have tbl1: "PyImport_FrozenModules w1 = modules cfg"
    and loc1: "cur_locale w1 = cur_locale w"
    using reg by (auto elim: register_tables_cases)
  have cl: "conversion_locale e w1 = conversion_locale e w"
    using loc1 by (rule conversion_locale_cong)
  have "fst (start_interpreter cfg e argv py_main w1) = Started"
    using assms(1,4,5,6) by (intro start_interpreter_succeeds) (simp_all add: cl tbl1)
  then obtain w2 where st: "start_interpreter cfg e argv py_main w1 = (Started, w2)"
    by (cases "start_interpreter cfg e argv py_main w1") auto
  have tbl2: "PyImport_FrozenModules w2 = modules cfg"
    using start_interpreter_table [OF st] tbl1 by simp
  have "\<not> import_frozen_status e (PyImport_FrozenModules w2) ''__main__'' < 0"
    using assms(14) by (simp add: tbl2 import_main_status)
  with assms(7-13) have "fst (configure_and_run e fn path w2) = True"
    by (intro configure_and_run_succeeds)
  then obtain w3 where run: "configure_and_run e fn path w2 = (True, w3)"
    by (cases "configure_and_run e fn path w2") auto
  from reg st run show ?thesis
    by (simp add: pyqtdeploy_start_def)
qed

subsection \<open>The return value\<close>

text \<open>
  Claim C7: \<open>pyqtdeploy_start\<close> returns 0 or 1 and nothing else. It returns 0 exactly when the
  whole sequence ran through \<open>Py_Finalize\<close>, which is exactly when none of the calls failed; it
  has then written nothing to the error stream. It returns 1 on every failure, with exactly
  one diagnostic: a line written by the function itself (a failed registration, allocation or
  conversion), or the report of \<open>PyErr_Print\<close> as the last call (an error inside the runtime,
  an error of the application included); \<open>Py_Finalize\<close> is then never called.

  The argument vector is not empty (for Python 3): with \<open>argc = 0\<close> the store
  \<open>w_argv[0] = py_main\<close> is outside the allocation.
\<close>

theorem return_values:
  assumes "pyqtdeploy_start cfg e argv py_main fn ext path w = (out, w')"
    and "argv \<noteq> [] \<or> \<not> py3 cfg"
  shows "(out = Returned 0 \<or> out = Returned 1) \<and>
         (out = Returned 0 \<longleftrightarrow> Py_Finalize \<in> set (made w w')) \<and>
         (out = Returned 0 \<longrightarrow>
            printed w w' = [] \<and> last (made w w') = Py_Finalize \<and> PyErr_Print \<notin> set (made w w')) \<and>
         (out = Returned 1 \<longrightarrow>
            (\<exists>m. printed w w' = [Message m] \<and> PyErr_Print \<notin> set (made w w')) \<or>
            (printed w w' = [Traceback] \<and> last (made w w') = PyErr_Print)) \<and>
         (out = Returned 0 \<longleftrightarrow>
            \<not> AppendInittab_rc e < 0 \<and> (ext = None \<or> \<not> ExtendInittab_rc e < 0) \<and>
            (py3 cfg \<longrightarrow> (\<forall>k<length argv. PyMem_Malloc_ok e k) \<and>
               None \<notin> wide_argument cfg e (conversion_locale e w) ` set (tl argv)) \<and>
            (\<not> py3 cfg \<longrightarrow> \<not> import_frozen_status e (modules cfg) (BOOTSTRAP_MODULE cfg) < 0) \<and>
            PyList_New_ok e \<and>
            (\<forall>j<length minimal_path. string_ok e 0 j \<and> list_append_ok e 0 j) \<and>
            (\<forall>p. path = Some p \<longrightarrow> (\<forall>j<length p. string_ok e 1 j \<and> list_append_ok e 1 j)) \<and>
            PySys_SetObject_ok e \<and> PyImport_AddModule_ok e \<and> filename_ok e \<and>
            PyDict_SetItemString_ok e \<and> frozen_exec_ok e ''__main__'')"
proof -
  have main: "(out = Returned 0 \<or> out = Returned 1) \<and>
           (out = Returned 0 \<longleftrightarrow> Py_Finalize \<in> set (made w w')) \<and>
           (out = Returned 0 \<longrightarrow>
              printed w w' = [] \<and> last (made w w') = Py_Finalize \<and> PyErr_Print \<notin> set (made w w')) \<and>
           (out = Returned 1 \<longrightarrow>
              (\<exists>m. printed w w' = [Message m] \<and> PyErr_Print \<notin> set (made w w')) \<or>
              (printed w w' = [Traceback] \<and> last (made w w') = PyErr_Print)) \<and>
           (out = Returned 0 \<longrightarrow>
              \<not> AppendInittab_rc e < 0 \<and> (ext = None \<or> \<not> ExtendInittab_rc e < 0) \<and>
              (py3 cfg \<longrightarrow> (\<forall>k<length argv. PyMem_Malloc_ok e k) \<and>
                 None \<notin> wide_argument cfg e (conversion_locale e w) ` set (tl argv)) \<and>
              (\<not> py3 cfg \<longrightarrow> \<not> import_frozen_status e (modules cfg) (BOOTSTRAP_MODULE cfg) < 0) \<and>
              PyList_New_ok e \<and>
              (\<forall>j<length minimal_path. string_ok e 0 j \<and> list_append_ok e 0 j) \<and>
              (\<forall>p. path = Some p \<longrightarrow> (\<forall>j<length p. string_ok e 1 j \<and> list_append_ok e 1 j)) \<and>
              PySys_SetObject_ok e \<and> PyImport_AddModule_ok e \<and> filename_ok e \<and>
              PyDict_SetItemString_ok e \<and> frozen_exec_ok e ''__main__'')"
    using assms(1)
  proof (cases rule: pyqtdeploy_start_runs)
    case (Registration_failed cs m)
    then show ?thesis
      by (auto dest: not_in_registrations)
  next
    case (Conversion_failed cs m)
    then show ?thesis
      by (auto dest: not_in_registrations)
  next
    case (Write_out_of_bounds cs)
    with assms(2) show ?thesis by simp
  next
    case (Bootstrap_error cs)
    then show ?thesis
      by (auto simp: init_calls_def dest: not_in_registrations)
  next
    case (Run_error cs n)
    have "Py_Finalize \<notin> set (take n (run_calls fn path))"
      using set_run_calls_take [of Py_Finalize n fn path] by (auto simp: run_calls_def)
    with Run_error show ?thesis
      by (auto simp: init_calls_def dest: not_in_registrations)
  next
    case (Finished cs)
    have reg: "PyErr_Print \<notin> set cs"
      using not_in_registrations [OF Finished(3), of PyErr_Print] by auto
    have ok: "frozen_exec_ok e ''__main__''"
      using Finished(6) by (simp add: import_main_status split: if_splits)
    have 1: "out = Returned 0 \<or> out = Returned 1" using Finished(1) by simp
    have 2: "out = Returned 0 \<longleftrightarrow> Py_Finalize \<in> set (made w w')" using Finished(1,2) by simp
    have 3: "printed w w' = [] \<and> last (made w w') = Py_Finalize \<and> PyErr_Print \<notin> set (made w w')"
      using Finished(2,4) reg by (simp add: init_calls_def run_calls_def)
    have 4: "out \<noteq> Returned 1" using Finished(1) by simp
    from Finished(7-19) ok 1 2 3 4 show ?thesis
      by blast
  qed
  have clean: "out = Returned 0"
    if "\<not> AppendInittab_rc e < 0" "ext = None \<or> \<not> ExtendInittab_rc e < 0"
      "py3 cfg \<longrightarrow> (\<forall>k<length argv. PyMem_Malloc_ok e k) \<and>
         None \<notin> wide_argument cfg e (conversion_locale e w) ` set (tl argv)"
      "\<not> py3 cfg \<longrightarrow> \<not> import_frozen_status e (modules cfg) (BOOTSTRAP_MODULE cfg) < 0"
      "PyList_New_ok e"
      "\<forall>j<length minimal_path. string_ok e 0 j \<and> list_append_ok e 0 j"
      "\<forall>p. path = Some p \<longrightarrow> (\<forall>j<length p. string_ok e 1 j \<and> list_append_ok e 1 j)"
      "PySys_SetObject_ok e" "PyImport_AddModule_ok e" "filename_ok e"
      "PyDict_SetItemString_ok e" "frozen_exec_ok e ''__main__''"
  proof -
    have "fst (pyqtdeploy_start cfg e argv py_main fn ext path w) = Returned 0"
      using assms(2) that by (intro clean_run_returns_zero) simp_all
    with assms(1) show ?thesis by simp
  qed
  from main clean show ?thesis
    by blast
qed

theorem return_values_witness:
  "fst (pyqtdeploy_start build_posix healthy [prog] app_prog ''main.py'' None None at_entry)
     = Returned 0 \<and>
   last (made at_entry
           (snd (pyqtdeploy_start build_posix healthy [prog] app_prog ''main.py'' None None
                   at_entry))) = Py_Finalize \<and>
   fst (pyqtdeploy_start build_posix (healthy\<lparr>AppendInittab_rc := - 1\<rparr>) [prog] app_prog
          ''main.py'' None None at_entry) = Returned 1 \<and>
   printed at_entry
     (snd (pyqtdeploy_start build_posix (healthy\<lparr>AppendInittab_rc := - 1\<rparr>) [prog] app_prog
             ''main.py'' None None at_entry)) = [Message ''PyImport_AppendInittab() failed''] \<and>
   fst (pyqtdeploy_start build_posix (healthy\<lparr>PyList_New_ok := False\<rparr>) [prog] app_prog
          ''main.py'' None None at_entry) = Returned 1 \<and>
   printed at_entry
     (snd (pyqtdeploy_start build_posix (healthy\<lparr>PyList_New_ok := False\<rparr>) [prog] app_prog
             ''main.py'' None None at_entry)) = [Traceback]"
proof -
  let ?good = "pyqtdeploy_start build_posix healthy [prog] app_prog ''main.py'' None None at_entry"
  let ?reg = "pyqtdeploy_start build_posix (healthy\<lparr>AppendInittab_rc := - 1\<rparr>) [prog] app_prog
                ''main.py'' None None at_entry"
  let ?rt = "pyqtdeploy_start build_posix (healthy\<lparr>PyList_New_ok := False\<rparr>) [prog] app_prog
               ''main.py'' None None at_entry"
  have ne: "[prog] \<noteq> [] \<or> \<not> py3 build_posix" by simp
  have fin: "Py_Finalize \<in> set (made at_entry (snd ?good))"
    by (simp add: run_defs sample_defs)
  have nofin: "Py_Finalize \<notin> set (made at_entry (snd ?reg))"
    "Py_Finalize \<notin> set (made at_entry (snd ?rt))"
    by (simp_all add: run_defs sample_defs)
  have msg: "printed at_entry (snd ?reg) = [Message ''PyImport_AppendInittab() failed'']"
    "printed at_entry (snd ?rt) = [Traceback]"
    by (simp_all add: run_defs sample_defs)
  from return_values [OF pair_collapse [of ?good] ne] fin
  have "fst ?good = Returned 0 \<and> last (made at_entry (snd ?good)) = Py_Finalize"
    by blast
  moreover from return_values [OF pair_collapse [of ?reg] ne] nofin
  have "fst ?reg = Returned 1" by blast
  moreover from return_values [OF pair_collapse [of ?rt] ne] nofin
  have "fst ?rt = Returned 1" by blast
  ultimately show ?thesis
    using msg by blast
qed

end
